theory Spec2Isabelle
  imports Main
begin

section \<open>Strings\<close>

text \<open>
  Python strings are modelled as \<^typ>\<open>string\<close>: lists of the code points 0..255.
  On these code points \<^verbatim>\<open>str.isspace\<close>, the class \<^verbatim>\<open>\s\<close> of the module
  \<^verbatim>\<open>re\<close> and the characters removed by \<^verbatim>\<open>str.strip()\<close> coincide, and the
  only decimal digits (\<^verbatim>\<open>\d\<close>) are the ten ASCII digits.
\<close>

definition newline :: char where
  "newline = CHR 0x0A"

definition isspace :: "char \<Rightarrow> bool" where
  "isspace c = (c \<in> set [CHR 0x09, CHR 0x0A, CHR 0x0B, CHR 0x0C, CHR 0x0D,
                          CHR 0x1C, CHR 0x1D, CHR 0x1E, CHR 0x1F, CHR 0x20,
                          CHR 0x85, CHR 0xA0])"

definition isdigit :: "char \<Rightarrow> bool" where
  "isdigit c = (c \<in> set ''0123456789'')"

definition strip :: "string \<Rightarrow> string" where
  "strip s = rev (dropWhile isspace (rev (dropWhile isspace s)))"

text \<open>\<^verbatim>\<open>value.replace(",", "")\<close>\<close>

definition remove_commas :: "string \<Rightarrow> string" where
  "remove_commas s = filter (\<lambda>c. c \<noteq> CHR '','') s"

text \<open>\<^verbatim>\<open>sep.join(parts)\<close>\<close>

fun join :: "string \<Rightarrow> string list \<Rightarrow> string" where
  "join sep [] = []"
| "join sep [x] = x"
| "join sep (x # y # ys) = x @ sep @ join sep (y # ys)"

text \<open>\<^verbatim>\<open>str(n)\<close> for a non-negative integer.\<close>

definition digit_char :: "nat \<Rightarrow> char" where
  "digit_char d = ''0123456789'' ! d"

fun str_nat :: "nat \<Rightarrow> string" where
  "str_nat n = (if n < 10 then [digit_char n] else str_nat (n div 10) @ [digit_char (n mod 10)])"

declare str_nat.simps [simp del]

section \<open>Regular expressions\<close>

text \<open>
  The three patterns compiled in \<^verbatim>\<open>CurrentAccount.__init__\<close> use literal characters
  (also those produced by \<^verbatim>\<open>re.escape\<close>), the classes \<^verbatim>\<open>\s\<close>, \<^verbatim>\<open>\d\<close> and
  \<^verbatim>\<open>.\<close>, sequencing, \<^verbatim>\<open>*\<close>, \<^verbatim>\<open>+\<close> and a final \<^verbatim>\<open>$\<close>. Groups only
  matter through \<^verbatim>\<open>group(0)\<close>, \<^verbatim>\<open>group(1)\<close> and \<^verbatim>\<open>group(2)\<close>, which are
  read off the matched line where the source uses them.
\<close>

datatype cls = Lit char | Space | Digit | Dot

fun cls_ok :: "cls \<Rightarrow> char \<Rightarrow> bool" where
  "cls_ok (Lit a) c = (c = a)"
| "cls_ok Space c = isspace c"
| "cls_ok Digit c = isdigit c"
| "cls_ok Dot c = (c \<noteq> newline)"

datatype pattern =
    Never
  | Empty
  | One cls
  | Or pattern pattern
  | Then pattern pattern
  | Many pattern

text \<open>A literal string, \<^verbatim>\<open>x+\<close>, and a sequence of patterns.\<close>

fun literal :: "string \<Rightarrow> pattern" where
  "literal [] = Empty"
| "literal (c # cs) = Then (One (Lit c)) (literal cs)"

definition Plus :: "pattern \<Rightarrow> pattern" where
  "Plus r = Then r (Many r)"

fun seq :: "pattern list \<Rightarrow> pattern" where
  "seq [] = Empty"
| "seq (r # rs) = Then r (seq rs)"

text \<open>The strings a pattern matches in full.\<close>

inductive_set many :: "string set \<Rightarrow> string set" for A :: "string set" where
  many_nil: "[] \<in> many A"
| many_app: "u \<in> A \<Longrightarrow> v \<in> many A \<Longrightarrow> u @ v \<in> many A"

fun lang :: "pattern \<Rightarrow> string set" where
  "lang Never = {}"
| "lang Empty = {[]}"
| "lang (One k) = {[c] | c. cls_ok k c}"
| "lang (Or r s) = lang r \<union> lang s"
| "lang (Then r s) = {u @ v | u v. u \<in> lang r \<and> v \<in> lang s}"
| "lang (Many r) = many (lang r)"

text \<open>
  Matching is computed with derivatives: \<open>after c r\<close> matches \<open>w\<close> exactly when
  \<open>r\<close> matches \<open>c # w\<close>. The constructors \<open>alt\<close> and \<open>cat\<close> drop dead branches.
\<close>

fun empty_ok :: "pattern \<Rightarrow> bool" where
  "empty_ok Never = False"
| "empty_ok Empty = True"
| "empty_ok (One k) = False"
| "empty_ok (Or r s) = (empty_ok r \<or> empty_ok s)"
| "empty_ok (Then r s) = (empty_ok r \<and> empty_ok s)"
| "empty_ok (Many r) = True"

fun alt :: "pattern \<Rightarrow> pattern \<Rightarrow> pattern" where
  "alt Never s = s"
| "alt r Never = r"
| "alt r s = Or r s"

fun cat :: "pattern \<Rightarrow> pattern \<Rightarrow> pattern" where
  "cat Never s = Never"
| "cat Empty s = s"
| "cat r s = Then r s"

fun after :: "char \<Rightarrow> pattern \<Rightarrow> pattern" where
  "after c Never = Never"
| "after c Empty = Never"
| "after c (One k) = (if cls_ok k c then Empty else Never)"
| "after c (Or r s) = alt (after c r) (after c s)"
| "after c (Then r s) =
     (if empty_ok r then alt (cat (after c r) s) (after c s) else cat (after c r) s)"
| "after c (Many r) = cat (after c r) (Many r)"

text \<open>
  \<^verbatim>\<open>pattern.match(s)\<close> for a pattern \<^verbatim>\<open>r$\<close>: some prefix of \<open>s\<close> is matched by
  \<open>r\<close> and the rest satisfies the end-of-line test \<open>eol\<close> of \<^verbatim>\<open>$\<close>. The result is
  only used as a truth value here.
\<close>

fun re_match :: "pattern \<Rightarrow> (string \<Rightarrow> bool) \<Rightarrow> string \<Rightarrow> bool" where
  "re_match r eol [] = (empty_ok r \<and> eol [])"
| "re_match r eol (c # cs) = ((empty_ok r \<and> eol (c # cs)) \<or> re_match (after c r) eol cs)"

text \<open>
  \<^verbatim>\<open>$\<close> without flags: at the end of the string or just before a newline that ends
  the string. With \<^verbatim>\<open>re.MULTILINE\<close>: at the end of the string or before any newline.
\<close>

definition dollar :: "string \<Rightarrow> bool" where
  "dollar rest = (rest = [] \<or> rest = [newline])"

definition dollar_multiline :: "string \<Rightarrow> bool" where
  "dollar_multiline rest = (case rest of [] \<Rightarrow> True | c # _ \<Rightarrow> c = newline)"

section \<open>Library values: decimals and dates\<close>

text \<open>
  \<^verbatim>\<open>decimal.Decimal\<close>: a finite number is a sign, a coefficient and an exponent
  (\<^verbatim>\<open>Decimal("1.50")\<close> is coefficient 150, exponent -2); the constructor also accepts
  infinities and NaNs.
\<close>

datatype decimal =
    Finite bool nat int
  | Infinite bool
  | NaN bool bool nat

record date =
  year :: nat
  month :: nat
  day :: nat

section \<open>Errors\<close>

text \<open>
  \<^verbatim>\<open>InvalidFormatError\<close> is the repository's own exception; it keeps the final message
  only. The other constructors are the exceptions that the library calls of
  \<^verbatim>\<open>extract\<close> raise: \<^verbatim>\<open>ValueError\<close> from \<^verbatim>\<open>datetime.strptime\<close>,
  \<^verbatim>\<open>decimal.InvalidOperation\<close> from \<^verbatim>\<open>Decimal\<close>, \<^verbatim>\<open>AttributeError\<close> and
  \<^verbatim>\<open>TypeError\<close> from operations on \<^verbatim>\<open>None\<close>, \<^verbatim>\<open>KeyError\<close> from a dictionary.
\<close>

datatype error =
    InvalidFormatError string
  | ValueError
  | InvalidOperation
  | AttributeError
  | TypeError
  | KeyError

text \<open>\<^verbatim>\<open>InvalidFormatError.__init__(message, lineno=None)\<close>\<close>

definition InvalidFormatError_init :: "string \<Rightarrow> nat option \<Rightarrow> error" where
  "InvalidFormatError_init message lineno =
     InvalidFormatError
       (case lineno of
          None \<Rightarrow> message
        | Some n \<Rightarrow> message @ '' (line '' @ str_nat n @ '')'')"

text \<open>Sequencing of computations that may raise.\<close>

definition and_then :: "error + 'a \<Rightarrow> ('a \<Rightarrow> error + 'b) \<Rightarrow> error + 'b" where
  "and_then x f = (case x of Inl e \<Rightarrow> Inl e | Inr v \<Rightarrow> f v)"

section \<open>The decimal constructor\<close>

text \<open>
  \<^verbatim>\<open>Decimal(text)\<close> follows the numeric-string syntax of the module \<^verbatim>\<open>decimal\<close>:
  surrounding whitespace and all underscores are dropped; then an optional sign and either
  digits with an optional point and an optional exponent, or \<^verbatim>\<open>Inf\<close>,
  \<^verbatim>\<open>Infinity\<close>, \<^verbatim>\<open>NaN\<close> or \<^verbatim>\<open>sNaN\<close> (with optional digits), letters in either
  case. Any other text raises \<^verbatim>\<open>InvalidOperation\<close>.

  The conversion is exact within the limits of the module (the constants \<^verbatim>\<open>MAX_PREC\<close>,
  \<^verbatim>\<open>MAX_EMAX\<close>, \<^verbatim>\<open>MIN_EMIN\<close> and \<^verbatim>\<open>MIN_ETINY\<close> of a 64-bit build) and raises
  \<^verbatim>\<open>InvalidOperation\<close> beyond them: when the coefficient without its leading zeros, the
  fraction, or the payload of a NaN without its leading zeros has more than
  \<^verbatim>\<open>MAX_PREC\<close> digits, when the adjusted exponent (the exponent plus the number of
  digits of the coefficient, minus one) is above \<^verbatim>\<open>MAX_EMAX\<close>, and when the exponent is
  below \<^verbatim>\<open>MIN_ETINY\<close>.
\<close>

definition MAX_PREC :: int where
  "MAX_PREC = 999999999999999999"

definition MAX_EMAX :: int where
  "MAX_EMAX = 999999999999999999"

definition MIN_EMIN :: int where
  "MIN_EMIN = - 999999999999999999"

definition MIN_ETINY :: int where
  "MIN_ETINY = MIN_EMIN - (MAX_PREC - 1)"

text \<open>The number of digits of a coefficient: leading zeros do not count, zero has one digit.\<close>

definition significant :: "string \<Rightarrow> int" where
  "significant ds = int (length (dropWhile (\<lambda>c. c = CHR ''0'') ds))"

definition coefficient_digits :: "string \<Rightarrow> int" where
  "coefficient_digits ds = max 1 (significant ds)"

definition digit_val :: "char \<Rightarrow> nat" where
  "digit_val c =
     (case map_of [(CHR ''0'', 0), (CHR ''1'', 1), (CHR ''2'', 2), (CHR ''3'', 3),
                   (CHR ''4'', 4), (CHR ''5'', 5), (CHR ''6'', 6), (CHR ''7'', 7),
                   (CHR ''8'', 8), (CHR ''9'', 9)] c of
        Some d \<Rightarrow> d
      | None \<Rightarrow> 0)"

definition nat_of_digits :: "string \<Rightarrow> nat" where
  "nat_of_digits ds = foldl (\<lambda>a c. 10 * a + digit_val c) 0 ds"

definition lower :: "char \<Rightarrow> char" where
  "lower c =
     (case map_of (zip ''ABCDEFGHIJKLMNOPQRSTUVWXYZ'' ''abcdefghijklmnopqrstuvwxyz'') c of
        Some l \<Rightarrow> l
      | None \<Rightarrow> c)"

definition split_sign :: "string \<Rightarrow> bool \<times> string" where
  "split_sign s =
     (case s of
        [] \<Rightarrow> (False, [])
      | c # cs \<Rightarrow>
          if c = CHR ''-'' then (True, cs)
          else if c = CHR ''+'' then (False, cs)
          else (False, s))"

text \<open>The exponent part: empty, or \<^verbatim>\<open>E\<close>, an optional sign and at least one digit.\<close>

definition exponent_part :: "string \<Rightarrow> int option" where
  "exponent_part s =
     (case s of
        [] \<Rightarrow> Some 0
      | c # cs \<Rightarrow>
          if lower c = CHR ''e'' then
            (case split_sign cs of
               (neg, ds) \<Rightarrow>
                 if ds \<noteq> [] \<and> list_all isdigit ds
                 then Some (if neg then - int (nat_of_digits ds) else int (nat_of_digits ds))
                 else None)
          else None)"

definition finite_numeral :: "string \<Rightarrow> (nat \<times> int) option" where
  "finite_numeral s =
     (let intpart = takeWhile isdigit s;
          r1 = dropWhile isdigit s;
          fracpart = (case r1 of
                        [] \<Rightarrow> []
                      | c # cs \<Rightarrow> if c = CHR ''.'' then takeWhile isdigit cs else []);
          r2 = (case r1 of
                  [] \<Rightarrow> []
                | c # cs \<Rightarrow> if c = CHR ''.'' then dropWhile isdigit cs else r1)
      in if intpart = [] \<and> fracpart = [] then None
         else (case exponent_part r2 of
                 None \<Rightarrow> None
               | Some e \<Rightarrow> Some (nat_of_digits (intpart @ fracpart), e - int (length fracpart))))"

text \<open>Whether a numeral that is well-formed lies within the limits.\<close>

definition within_limits :: "string \<Rightarrow> int \<Rightarrow> bool" where
  "within_limits s exponent =
     (let intpart = takeWhile isdigit s;
          r1 = dropWhile isdigit s;
          fracpart = (case r1 of
                        [] \<Rightarrow> []
                      | c # cs \<Rightarrow> if c = CHR ''.'' then takeWhile isdigit cs else []);
          digits = coefficient_digits (intpart @ fracpart)
      in int (length fracpart) \<le> MAX_PREC \<and> digits \<le> MAX_PREC \<and>
         exponent + digits - 1 \<le> MAX_EMAX \<and> MIN_ETINY \<le> exponent)"

definition nan_numeral :: "string \<Rightarrow> (bool \<times> nat) option" where
  "nan_numeral s =
     (let l = map lower s;
          signal = (take 1 l = ''s'');
          r = (if signal then drop 1 l else l)
      in if take 3 r = ''nan'' \<and> list_all isdigit (drop 3 r)
         then Some (signal, nat_of_digits (drop 3 r))
         else None)"

definition payload_within_limits :: "string \<Rightarrow> bool" where
  "payload_within_limits s =
     (let l = map lower s;
          r = (if take 1 l = ''s'' then drop 1 l else l)
      in significant (drop 3 r) \<le> MAX_PREC)"

definition Decimal :: "string \<Rightarrow> error + decimal" where
  "Decimal text =
     (case split_sign (filter (\<lambda>c. c \<noteq> CHR ''_'') (strip text)) of
        (neg, body) \<Rightarrow>
          (case finite_numeral body of
             Some (coefficient, exponent) \<Rightarrow>
               if within_limits body exponent
               then Inr (Finite neg coefficient exponent)
               else Inl InvalidOperation
           | None \<Rightarrow>
               if map lower body = ''inf'' \<or> map lower body = ''infinity''
               then Inr (Infinite neg)
               else (case nan_numeral body of
                       Some (signal, payload) \<Rightarrow>
                         if payload_within_limits body
                         then Inr (NaN neg signal payload)
                         else Inl InvalidOperation
                     | None \<Rightarrow> Inl InvalidOperation)))"

text \<open>Python's \<^verbatim>\<open>==\<close> on decimals compares finite numbers by value.\<close>

definition signed :: "bool \<Rightarrow> nat \<Rightarrow> int" where
  "signed neg c = (if neg then - int c else int c)"

fun decimal_eq :: "decimal \<Rightarrow> decimal \<Rightarrow> bool" where
  "decimal_eq (Finite s1 c1 e1) (Finite s2 c2 e2) =
     (signed s1 c1 * 10 ^ nat (e1 - min e1 e2) = signed s2 c2 * 10 ^ nat (e2 - min e1 e2))"
| "decimal_eq (Infinite s1) (Infinite s2) = (s1 = s2)"
| "decimal_eq _ _ = False"

section \<open>Dates\<close>

text \<open>
  \<^verbatim>\<open>datetime.strptime(text, "%m/%d/%Y").date()\<close>. The directive \<^verbatim>\<open>%m\<close> accepts
  \<^verbatim>\<open>1[0-2]|0[1-9]|[1-9]\<close>, \<^verbatim>\<open>%d\<close> accepts
  \<^verbatim>\<open>3[0-1]|[1-2]\d|0[1-9]|[1-9]| [1-9]\<close> and \<^verbatim>\<open>%Y\<close> exactly four digits; no
  token contains a slash, so the text splits at its first two slashes. Text that does not
  match, text left over, and a date that does not exist all raise \<^verbatim>\<open>ValueError\<close>.
\<close>

definition month_token :: "string \<Rightarrow> bool" where
  "month_token s =
     (case s of
        [a] \<Rightarrow> a \<in> set ''123456789''
      | [a, b] \<Rightarrow> (a = CHR ''1'' \<and> b \<in> set ''012'') \<or> (a = CHR ''0'' \<and> b \<in> set ''123456789'')
      | _ \<Rightarrow> False)"

definition day_token :: "string \<Rightarrow> bool" where
  "day_token s =
     (case s of
        [a] \<Rightarrow> a \<in> set ''123456789''
      | [a, b] \<Rightarrow>
          (a = CHR ''3'' \<and> b \<in> set ''01'') \<or>
          (a \<in> set ''12'' \<and> isdigit b) \<or>
          (a = CHR ''0'' \<and> b \<in> set ''123456789'') \<or>
          (a = CHR '' '' \<and> b \<in> set ''123456789'')
      | _ \<Rightarrow> False)"

definition is_leap :: "nat \<Rightarrow> bool" where
  "is_leap y = (y mod 4 = 0 \<and> (y mod 100 \<noteq> 0 \<or> y mod 400 = 0))"

definition days_in_month :: "nat \<Rightarrow> nat \<Rightarrow> nat" where
  "days_in_month y m =
     (if m = 2 then (if is_leap y then 29 else 28)
      else if m = 4 \<or> m = 6 \<or> m = 9 \<or> m = 11 then 30
      else 31)"

definition strptime :: "string \<Rightarrow> error + date" where
  "strptime text =
     (let ms = takeWhile (\<lambda>c. c \<noteq> CHR ''/'') text;
          r1 = drop 1 (dropWhile (\<lambda>c. c \<noteq> CHR ''/'') text);
          ds = takeWhile (\<lambda>c. c \<noteq> CHR ''/'') r1;
          ys = drop 1 (dropWhile (\<lambda>c. c \<noteq> CHR ''/'') r1);
          y = nat_of_digits ys;
          m = nat_of_digits (filter isdigit ms);
          d = nat_of_digits (filter isdigit ds)
      in if month_token ms \<and> day_token ds \<and> length ys = 4 \<and> list_all isdigit ys \<and> 1 \<le> y \<and> d \<le> days_in_month y m
         then Inr \<lparr>year = y, month = m, day = d\<rparr>
         else Inl ValueError)"

section \<open>The importer object and its input\<close>

text \<open>
  A value stored in one of the attributes that \<^verbatim>\<open>extract\<close> assigns; Python does not
  fix its type.
\<close>

datatype pyval = PyNone | PyStr string | PyDecimal decimal | PyDate date

text \<open>
  \<^verbatim>\<open>CurrentAccount\<close>: the configuration given to \<^verbatim>\<open>__init__\<close>, the three compiled
  patterns, and the attributes \<^verbatim>\<open>_date_from\<close>, \<^verbatim>\<open>_date_to\<close>,
  \<^verbatim>\<open>_starting_balance\<close> and \<^verbatim>\<open>_finishing_balance\<close>.
\<close>

record parser =
  account :: string
  currency :: string
  file_encoding :: string
  expected_header_regex :: pattern
  from_to_regex :: pattern
  starting_balance_regex :: pattern
  date_from :: pyval
  date_to :: pyval
  starting_balance :: pyval
  finishing_balance :: pyval

definition DATA_HEADERS :: "string list" where
  "DATA_HEADERS =
     [''Booking date'', ''Value date'', ''Transaction Type'', ''Beneficiary / Originator'',
      ''Payment Details'', ''IBAN'', ''BIC'', ''Customer Reference'', ''Mandate Reference'',
      ''Creditor ID'', ''Compensation amount'', ''Original Amount'', ''Ultimate creditor'',
      ''Number of transactions'', ''Number of cheques'', ''Debit'', ''Credit'', ''Currency'']"

text \<open>
  \<^verbatim>\<open>FLAG\<close> is inherited from \<^verbatim>\<open>ImporterProtocol\<close> of the beancount library, where it
  is the flag of a checked transaction.
\<close>

definition FLAG :: string where
  "FLAG = ''*''"

text \<open>\<^verbatim>\<open>\d\d\/\d\d\/\d\d\d\d\<close>\<close>

definition date_pattern :: pattern where
  "date_pattern =
     seq [One Digit, One Digit, One (Lit (CHR ''/'')), One Digit, One Digit,
          One (Lit (CHR ''/'')), One Digit, One Digit, One Digit, One Digit]"

definition CurrentAccount :: "string \<Rightarrow> string \<Rightarrow> string \<Rightarrow> string \<Rightarrow> string \<Rightarrow> parser" where
  "CurrentAccount branch number account' currency' file_encoding' =
     \<lparr>account = account',
      currency = currency',
      file_encoding = file_encoding',
      expected_header_regex =
        seq [literal ''Transactions'', One Space, Many (One Dot),
             literal '';;;Customer'', One Space, literal ''number:'', One Space,
             literal branch, One Space, literal number],
      from_to_regex = seq [date_pattern, literal '' - '', date_pattern],
      starting_balance_regex =
        seq [literal ''Old'', One Space, literal ''balance:;;;;'',
             Plus (One Digit), Many (Then (One (Lit (CHR '',''))) (Plus (One Digit))),
             One Dot, One Digit, One Digit,
             literal '';'', literal currency'],
      date_from = PyNone,
      date_to = PyNone,
      starting_balance = PyNone,
      finishing_balance = PyNone\<rparr>"

text \<open>
  The file handed to the importer. \<open>contents\<close> is what \<^verbatim>\<open>file_.contents()\<close>
  returns. \<open>lines\<close> are the physical lines that \<^verbatim>\<open>readline\<close> returns one by one
  when the file \<^verbatim>\<open>file_.name\<close> is opened, each with its line end, and \<open>table\<close> is the
  sequence of rows that \<^verbatim>\<open>csv.reader\<close> (delimiter \<^verbatim>\<open>;\<close>, minimal quoting) yields
  on what follows the fourth line: one list of fields per record, the empty list for a
  blank line.
\<close>

record source_file =
  name :: string
  contents :: string
  lines :: "string list"
  table :: "string list list"

text \<open>\<^verbatim>\<open>fobj.readline()\<close> returns the empty string at the end of the file.\<close>

definition readline :: "source_file \<Rightarrow> nat \<Rightarrow> string" where
  "readline fobj k = (if k < length (lines fobj) then lines fobj ! k else [])"

definition next_line :: "source_file \<Rightarrow> nat \<Rightarrow> nat \<times> string" where
  "next_line fobj lineno = (lineno + 1, strip (readline fobj lineno))"

text \<open>
  \<^verbatim>\<open>csv.DictReader\<close>: the field names are the first row of the table (\<^verbatim>\<open>None\<close> when
  there is none). Every later row that is not empty becomes a dictionary from the field
  names to its fields: a name repeated in the header keeps its last field, and the names
  beyond a short row get \<^verbatim>\<open>None\<close>. (Fields beyond the header are stored under the key
  \<^verbatim>\<open>None\<close>, which \<^verbatim>\<open>extract\<close> never reads.)
\<close>

datatype cell = CNone | CStr string

type_synonym row = "string \<rightharpoonup> cell"

definition fieldnames :: "source_file \<Rightarrow> string list option" where
  "fieldnames fobj = (case table fobj of [] \<Rightarrow> None | h # _ \<Rightarrow> Some h)"

definition dict_row :: "string list \<Rightarrow> string list \<Rightarrow> row" where
  "dict_row names cells =
     map_of (rev (zip names (map CStr cells @ replicate (length names - length cells) CNone)))"

definition reader_rows :: "source_file \<Rightarrow> string list \<Rightarrow> row list" where
  "reader_rows fobj names = map (dict_row names) (filter (\<lambda>r. r \<noteq> []) (tl (table fobj)))"

text \<open>\<^verbatim>\<open>line[key]\<close>, the truth value of a field, and a field inside an f-string.\<close>

definition getitem :: "row \<Rightarrow> string \<Rightarrow> error + cell" where
  "getitem line key = (case line key of None \<Rightarrow> Inl KeyError | Some v \<Rightarrow> Inr v)"

fun truthy :: "cell \<Rightarrow> bool" where
  "truthy CNone = False"
| "truthy (CStr s) = (s \<noteq> [])"

fun format_cell :: "cell \<Rightarrow> string" where
  "format_cell CNone = ''None''"
| "format_cell (CStr s) = s"

text \<open>
  \<^verbatim>\<open>format_number(value)\<close>, \<^verbatim>\<open>datetime.strptime(value, DATE_FORMAT).date()\<close> and
  \<^verbatim>\<open>value.strip()\<close> on a field, which may be \<^verbatim>\<open>None\<close>.
\<close>

fun format_number :: "cell \<Rightarrow> error + decimal" where
  "format_number CNone = Inl AttributeError"
| "format_number (CStr value) = Decimal (remove_commas value)"

fun strptime_cell :: "cell \<Rightarrow> error + date" where
  "strptime_cell CNone = Inl TypeError"
| "strptime_cell (CStr value) = strptime value"

fun strip_cell :: "cell \<Rightarrow> error + string" where
  "strip_cell CNone = Inl AttributeError"
| "strip_cell (CStr value) = Inr (strip value)"

section \<open>Transactions\<close>

text \<open>
  The entries of the beancount data model that \<^verbatim>\<open>extract\<close> builds: the metadata of
  \<^verbatim>\<open>data.new_metadata\<close>, one posting with an \<^verbatim>\<open>Amount\<close>, and the fields of
  \<^verbatim>\<open>data.Transaction\<close>. Cost, price, flag and metadata of the posting are
  \<^verbatim>\<open>None\<close>; tags and links are empty.
\<close>

record amount =
  amount_number :: decimal
  amount_currency :: string

record posting =
  posting_account :: string
  posting_units :: amount

record transaction =
  meta_filename :: string
  meta_lineno :: nat
  txn_date :: date
  flag :: string
  payee :: string
  narration :: string
  postings :: "posting list"

section \<open>Extraction\<close>

text \<open>\<^verbatim>\<open>'{line}'\<close> inside an f-string.\<close>

definition quoted :: "string \<Rightarrow> string" where
  "quoted s = [CHR 0x27] @ s @ [CHR 0x27]"

definition line4text :: string where
  "line4text = ''Transactions pending are not included in this report.''"

text \<open>
  The four lines before the table. The result is the line counter, and the importer with the
  attributes assigned so far: an exception leaves the earlier assignments in place.
  \<^verbatim>\<open>group(1)\<close> and \<^verbatim>\<open>group(2)\<close> of the date-range pattern are the two ten-character
  dates of the matched line, and \<^verbatim>\<open>group(0)\<close> of the balance pattern is the whole
  matched line: a stripped line has no final newline for \<^verbatim>\<open>$\<close> to stop at. Both
  patterns have as many groups as the source tests for, so those two tests never fail.
\<close>

definition extract_preamble :: "parser \<Rightarrow> source_file \<Rightarrow> (error + nat) \<times> parser" where
  "extract_preamble self fobj =
     (let lineno = 0;
          (lineno, line) = next_line fobj lineno
      in if \<not> re_match (expected_header_regex self) dollar_multiline line
         then (Inl (InvalidFormatError_init (''Unexpected header '' @ quoted line) (Some lineno)),
               self)
         else
           let (lineno, line) = next_line fobj lineno
           in if \<not> re_match (from_to_regex self) dollar line
              then (Inl (InvalidFormatError_init
                           (''Unexpected from and to dates '' @ quoted line) None), self)
              else
                (case strptime (take 10 line) of
                   Inl e \<Rightarrow> (Inl e, self)
                 | Inr d1 \<Rightarrow>
                     let self = self\<lparr>date_from := PyDate d1\<rparr>
                     in (case strptime (take 10 (drop 13 line)) of
                           Inl e \<Rightarrow> (Inl e, self)
                         | Inr d2 \<Rightarrow>
                             let self = self\<lparr>date_to := PyDate d2\<rparr>;
                                 (lineno, line) = next_line fobj lineno
                             in if \<not> re_match (starting_balance_regex self) dollar line
                                then (Inl (InvalidFormatError_init
                                             (''Unexpected old balance '' @ quoted line) None),
                                      self)
                                else
                                  let self = self\<lparr>starting_balance := PyStr line\<rparr>;
                                      (lineno, line) = next_line fobj lineno
                                  in if line \<noteq> line4text
                                     then (Inl (InvalidFormatError_init
                                                  (''Unexpected line '' @ quoted line @
                                                   '' (expected '' @ line4text @ '')'') None),
                                           self)
                                     else (Inr lineno, self))))"

text \<open>The choice between the debit and the credit column (source lines 164 to 175).\<close>

definition debit_or_credit :: "row \<Rightarrow> nat \<Rightarrow> error + decimal" where
  "debit_or_credit line lineno =
     and_then (getitem line ''Debit'') (\<lambda>debit.
       if truthy debit then
         and_then (getitem line ''Credit'') (\<lambda>credit.
           if truthy credit
           then Inl (InvalidFormatError_init ''Cannot have both debit and credit values''
                       (Some lineno))
           else format_number debit)
       else
         and_then (getitem line ''Credit'') (\<lambda>credit.
           if truthy credit then format_number credit
           else Inl (InvalidFormatError_init ''Neither debit not credit value found''
                       (Some lineno))))"

text \<open>An ordinary row (the \<^verbatim>\<open>else\<close> branch, source lines 159 to 200).\<close>

definition ordinary_row :: "parser \<Rightarrow> string \<Rightarrow> nat \<Rightarrow> row \<Rightarrow> error + transaction" where
  "ordinary_row self filename lineno line =
     and_then (getitem line ''Currency'') (\<lambda>cur.
       if cur \<noteq> CStr (currency self)
       then Inl (InvalidFormatError_init (''Unexpected currency '' @ format_cell cur)
                   (Some lineno))
       else
         and_then (debit_or_credit line lineno) (\<lambda>v.
         and_then (getitem line ''Value date'') (\<lambda>value_date.
         and_then (strptime_cell value_date) (\<lambda>d.
         and_then (getitem line ''Beneficiary / Originator'') (\<lambda>beneficiary.
         and_then (strip_cell beneficiary) (\<lambda>p.
           Inr \<lparr>meta_filename = filename,
                meta_lineno = lineno,
                txn_date = d,
                flag = FLAG,
                payee = p,
                narration = [],
                postings =
                  [\<lparr>posting_account = account self,
                    posting_units = \<lparr>amount_number = v, amount_currency = currency self\<rparr>\<rparr>]\<rparr>))))))"

text \<open>The row with the closing balance (source lines 150 to 157).\<close>

definition balance_row :: "parser \<Rightarrow> nat \<Rightarrow> row \<Rightarrow> error + decimal" where
  "balance_row self lineno line =
     and_then (getitem line ''IBAN'') (\<lambda>iban.
       if iban \<noteq> CStr (currency self)
       then and_then (getitem line ''Currency'') (\<lambda>cur.
              Inl (InvalidFormatError_init (''Unexpected currency '' @ format_cell cur)
                     (Some lineno)))
       else and_then (getitem line ''Payment Details'') format_number)"

text \<open>One pass through the body of the loop, after the counter was incremented.\<close>

definition process_row ::
  "parser \<Rightarrow> string \<Rightarrow> nat \<Rightarrow> row \<Rightarrow> transaction list \<Rightarrow> (error + transaction list) \<times> parser"
where
  "process_row self filename lineno line entries =
     (case getitem line ''Booking date'' of
        Inl e \<Rightarrow> (Inl e, self)
      | Inr booking_date \<Rightarrow>
          if booking_date = CStr ''Account balance'' then
            (case balance_row self lineno line of
               Inl e \<Rightarrow> (Inl e, self)
             | Inr v \<Rightarrow> (Inr entries, self\<lparr>finishing_balance := PyDecimal v\<rparr>))
          else
            (case ordinary_row self filename lineno line of
               Inl e \<Rightarrow> (Inl e, self)
             | Inr t \<Rightarrow> (Inr (entries @ [t]), self)))"

fun extract_rows ::
  "parser \<Rightarrow> string \<Rightarrow> nat \<Rightarrow> row list \<Rightarrow> transaction list \<Rightarrow> (error + transaction list) \<times> parser"
where
  "extract_rows self filename lineno [] entries = (Inr entries, self)"
| "extract_rows self filename lineno (line # rest) entries =
     (case process_row self filename (lineno + 1) line entries of
        (Inl e, self') \<Rightarrow> (Inl e, self')
      | (Inr entries', self') \<Rightarrow> extract_rows self' filename (lineno + 1) rest entries')"

text \<open>
  \<^verbatim>\<open>CurrentAccount.extract\<close> (\<open>extract\<close> alone is a command of Isabelle, hence the
  longer name). The result pairs what the call returns or raises with the
  importer object as the call leaves it.
\<close>

definition extract_file :: "parser \<Rightarrow> source_file \<Rightarrow> (error + transaction list) \<times> parser" where
  "extract_file self fobj =
     (let entries = []
      in case extract_preamble self fobj of
           (Inl e, self) \<Rightarrow> (Inl e, self)
         | (Inr lineno, self) \<Rightarrow>
             let lineno = lineno + 1
             in (case fieldnames fobj of
                   None \<Rightarrow> (Inl TypeError, self)
                 | Some names \<Rightarrow>
                     if set names \<noteq> set DATA_HEADERS
                     then (Inl (InvalidFormatError_init
                                  (''Unexpected data headers (expected '' @
                                   join '';'' DATA_HEADERS @ '')'') (Some lineno)), self)
                     else extract_rows self (name fobj) lineno (reader_rows fobj names)
                            entries))"

text \<open>\<^verbatim>\<open>CurrentAccount.identify\<close>: the truth value of the match object.\<close>

definition identify :: "parser \<Rightarrow> source_file \<Rightarrow> bool" where
  "identify self fobj = re_match (expected_header_regex self) dollar_multiline (contents fobj)"


section \<open>Properties of statements and results\<close>

text \<open>
  The predicates below are used to state the theorems: when a computation returns, what a
  well-formed preamble and well-formed rows are, and when a transaction is the one built
  from a row.
\<close>

definition succeeds :: "error + 'a \<Rightarrow> bool" where
  "succeeds x = (case x of Inl _ \<Rightarrow> False | Inr _ \<Rightarrow> True)"

definition valid_preamble :: "parser \<Rightarrow> source_file \<Rightarrow> bool" where
  "valid_preamble self fobj =
     (re_match (expected_header_regex self) dollar_multiline (strip (readline fobj 0)) \<and>
      re_match (from_to_regex self) dollar (strip (readline fobj 1)) \<and>
      succeeds (strptime (take 10 (strip (readline fobj 1)))) \<and>
      succeeds (strptime (take 10 (drop 13 (strip (readline fobj 1))))) \<and>
      re_match (starting_balance_regex self) dollar (strip (readline fobj 2)) \<and>
      strip (readline fobj 3) = line4text)"

definition has :: "row \<Rightarrow> string \<Rightarrow> (cell \<Rightarrow> bool) \<Rightarrow> bool" where
  "has line key P = (case line key of None \<Rightarrow> False | Some c \<Rightarrow> P c)"

definition is_balance_row :: "row \<Rightarrow> bool" where
  "is_balance_row line = (line ''Booking date'' = Some (CStr ''Account balance''))"

definition valid_balance_row :: "string \<Rightarrow> row \<Rightarrow> bool" where
  "valid_balance_row cur line =
     (is_balance_row line \<and>
      line ''IBAN'' = Some (CStr cur) \<and>
      has line ''Payment Details'' (\<lambda>c. succeeds (format_number c)))"

definition valid_ordinary_row :: "string \<Rightarrow> row \<Rightarrow> bool" where
  "valid_ordinary_row cur line =
     (has line ''Booking date'' (\<lambda>b. b \<noteq> CStr ''Account balance'') \<and>
      line ''Currency'' = Some (CStr cur) \<and>
      has line ''Debit'' (\<lambda>debit. has line ''Credit'' (\<lambda>credit.
        truthy debit \<noteq> truthy credit \<and>
        succeeds (format_number (if truthy debit then debit else credit)))) \<and>
      has line ''Value date'' (\<lambda>v. succeeds (strptime_cell v)) \<and>
      has line ''Beneficiary / Originator'' (\<lambda>b. succeeds (strip_cell b)))"

definition valid_row :: "string \<Rightarrow> row \<Rightarrow> bool" where
  "valid_row cur line = (valid_ordinary_row cur line \<or> valid_balance_row cur line)"

definition built_from :: "parser \<Rightarrow> string \<Rightarrow> nat \<Rightarrow> row \<Rightarrow> transaction \<Rightarrow> bool" where
  "built_from self filename lineno line t =
     (meta_filename t = filename \<and>
      meta_lineno t = lineno \<and>
      has line ''Value date'' (\<lambda>v. strptime_cell v = Inr (txn_date t)) \<and>
      flag t = FLAG \<and>
      has line ''Beneficiary / Originator'' (\<lambda>b. strip_cell b = Inr (payee t)) \<and>
      narration t = [] \<and>
      (case postings t of
         [p] \<Rightarrow>
           posting_account p = account self \<and>
           amount_currency (posting_units p) = currency self \<and>
           has line ''Debit'' (\<lambda>debit. has line ''Credit'' (\<lambda>credit.
             format_number (if truthy debit then debit else credit) =
               Inr (amount_number (posting_units p))))
       | _ \<Rightarrow> False))"

fun entries_match :: "parser \<Rightarrow> string \<Rightarrow> nat \<Rightarrow> row list \<Rightarrow> transaction list \<Rightarrow> bool" where
  "entries_match self filename lineno [] ts = (ts = [])"
| "entries_match self filename lineno (line # rest) ts =
     (if is_balance_row line then entries_match self filename (lineno + 1) rest ts
      else (case ts of
              [] \<Rightarrow> False
            | t # ts' \<Rightarrow>
                built_from self filename (lineno + 1) line t \<and>
                entries_match self filename (lineno + 1) rest ts'))"

fun closing :: "pyval \<Rightarrow> row list \<Rightarrow> pyval" where
  "closing b [] = b"
| "closing b (line # rest) =
     closing
       (if is_balance_row line
        then (case line ''Payment Details'' of
                None \<Rightarrow> b
              | Some c \<Rightarrow> (case format_number c of Inl _ \<Rightarrow> b | Inr v \<Rightarrow> PyDecimal v))
        else b)
       rest"

section \<open>A sample statement\<close>

definition demo_importer :: parser where
  "demo_importer = CurrentAccount ''123'' ''4567890'' ''Assets:DB:Current'' ''EUR'' ''utf-8''"

definition demo_lines :: "string list" where
  "demo_lines =
     [''Transactions Personal Account;;;Customer number: 123 4567890'' @ [newline],
      ''01/01/2023 - 01/31/2023'' @ [newline],
      ''Old balance:;;;;1,234.56;EUR'' @ [newline],
      ''Transactions pending are not included in this report.'' @ [newline]]"

definition demo_file :: "string list list \<Rightarrow> source_file" where
  "demo_file rows =
     \<lparr>name = ''statement.csv'', contents = concat demo_lines, lines = demo_lines, table = rows\<rparr>"

definition demo_payment :: "string list" where
  "demo_payment =
     [''01/05/2023'', ''01/05/2023'', ''SEPA-Direct Debit'', ''Acme '', ''Invoice 7'',
      ''DE02100100100006820101'', ''PBNKDEFF'', [], [], [], [], [], [], [], [],
      ''-50.00'', [], ''EUR'']"

definition demo_deposit :: "string list" where
  "demo_deposit =
     [''01/09/2023'', ''01/10/2023'', ''SEPA-Credit Transfer'', '' Bob'', ''Salary'',
      ''DE89370400440532013000'', ''COBADEFF'', [], [], [], [], [], [], [], [],
      [], ''1,500.00'', ''EUR'']"

definition demo_balance :: "string list" where
  "demo_balance =
     [''Account balance'', [], [], [], ''1,234.56'', ''EUR'', [], [], [], [], [], [],
      [], [], [], [], [], []]"

text \<open>The two transactions of the sample statement.\<close>

definition demo_payment_entry :: transaction where
  "demo_payment_entry =
     \<lparr>meta_filename = ''statement.csv'', meta_lineno = 6,
      txn_date = \<lparr>year = 2023, month = 1, day = 5\<rparr>, flag = ''*'', payee = ''Acme'',
      narration = [],
      postings =
        [\<lparr>posting_account = ''Assets:DB:Current'',
          posting_units = \<lparr>amount_number = Finite True 5000 (- 2), amount_currency = ''EUR''\<rparr>\<rparr>]\<rparr>"

definition demo_deposit_entry :: transaction where
  "demo_deposit_entry =
     \<lparr>meta_filename = ''statement.csv'', meta_lineno = 7,
      txn_date = \<lparr>year = 2023, month = 1, day = 10\<rparr>, flag = ''*'', payee = ''Bob'',
      narration = [],
      postings =
        [\<lparr>posting_account = ''Assets:DB:Current'',
          posting_units = \<lparr>amount_number = Finite False 150000 (- 2), amount_currency = ''EUR''\<rparr>\<rparr>]\<rparr>"

text \<open>The same statement with other lines before the table.\<close>

definition sample_file :: "string list \<Rightarrow> string list list \<Rightarrow> source_file" where
  "sample_file ls rows =
     \<lparr>name = ''statement.csv'', contents = concat ls, lines = ls, table = rows\<rparr>"

text \<open>The importer after the four lines of the sample statement were read.\<close>

definition demo_parsed :: parser where
  "demo_parsed =
     demo_importer
       \<lparr>date_from := PyDate \<lparr>year = 2023, month = 1, day = 1\<rparr>,
        date_to := PyDate \<lparr>year = 2023, month = 1, day = 31\<rparr>,
        starting_balance := PyStr ''Old balance:;;;;1,234.56;EUR''\<rparr>"

text \<open>Further rows: closing balances and rows that are rejected.\<close>

definition demo_balance_dotted :: "string list" where
  "demo_balance_dotted =
     [''Account balance'', [], [], [], ''1.234,56'', ''EUR'', [], [], [], [], [], [],
      [], [], [], [], [], []]"

definition demo_balance_early :: "string list" where
  "demo_balance_early =
     [''Account balance'', [], [], [], ''99.00'', ''EUR'', [], [], [], [], [], [],
      [], [], [], [], [], []]"

definition demo_balance_usd :: "string list" where
  "demo_balance_usd =
     [''Account balance'', [], [], [], ''1,234.56'', ''USD'', [], [], [], [], [], [],
      [], [], [], [], [], ''EUR'']"

definition demo_both :: "string list" where
  "demo_both =
     [''01/05/2023'', ''01/05/2023'', ''SEPA-Direct Debit'', ''Acme '', ''Invoice 7'',
      ''DE02100100100006820101'', ''PBNKDEFF'', [], [], [], [], [], [], [], [],
      ''-50.00'', ''50.00'', ''EUR'']"

definition demo_neither :: "string list" where
  "demo_neither =
     [''01/05/2023'', ''01/05/2023'', ''SEPA-Direct Debit'', ''Acme '', ''Invoice 7'',
      ''DE02100100100006820101'', ''PBNKDEFF'', [], [], [], [], [], [], [], [],
      [], [], ''EUR'']"

definition demo_bad_number :: "string list" where
  "demo_bad_number =
     [''01/05/2023'', ''01/05/2023'', ''SEPA-Direct Debit'', ''Acme '', ''Invoice 7'',
      ''DE02100100100006820101'', ''PBNKDEFF'', [], [], [], [], [], [], [], [],
      ''fifty'', [], ''EUR'']"

definition demo_bad_date :: "string list" where
  "demo_bad_date =
     [''01/05/2023'', ''2023-01-05'', ''SEPA-Direct Debit'', ''Acme '', ''Invoice 7'',
      ''DE02100100100006820101'', ''PBNKDEFF'', [], [], [], [], [], [], [], [],
      ''-50.00'', [], ''EUR'']"

text \<open>The importer without the closing balance, to compare the rest of two importers.\<close>

definition without_closing :: "parser \<Rightarrow> parser" where
  "without_closing s = s\<lparr>finishing_balance := PyNone\<rparr>"






text \<open>The sample statement after one more line at its start.\<close>

definition demo_shifted_file :: source_file where
  "demo_shifted_file = sample_file ((''Statement export'' @ [newline]) # demo_lines) []"

section \<open>Auxiliary facts\<close>

lemma succeedsE: "succeeds x \<Longrightarrow> \<exists>v. x = Inr v"
  by (cases x) (simp_all add: succeeds_def)

lemma hasE: "has line key P \<Longrightarrow> \<exists>c. line key = Some c \<and> P c"
  by (cases "line key") (simp_all add: has_def)

lemma has_Some [simp]: "line key = Some c \<Longrightarrow> has line key P = P c"
  by (simp add: has_def)

lemma getitem_Some [simp]: "line key = Some c \<Longrightarrow> getitem line key = Inr c"
  by (simp add: getitem_def)

lemma and_then_Inr [simp]: "and_then (Inr v) f = f v"
  by (simp add: and_then_def)

lemma and_then_Inl [simp]: "and_then (Inl e) f = Inl e"
  by (simp add: and_then_def)

lemma extract_preamble_valid:
  assumes "valid_preamble self fobj"
  shows "\<exists>d1 d2. strptime (take 10 (strip (readline fobj 1))) = Inr d1 \<and>
           strptime (take 10 (drop 13 (strip (readline fobj 1)))) = Inr d2 \<and>
           extract_preamble self fobj =
             (Inr 4, self\<lparr>date_from := PyDate d1, date_to := PyDate d2,
                           starting_balance := PyStr (strip (readline fobj 2))\<rparr>)"
proof -
  from assms obtain d1 d2 where
    d: "strptime (take 10 (strip (readline fobj 1))) = Inr d1"
       "strptime (take 10 (drop 13 (strip (readline fobj 1)))) = Inr d2"
    unfolding valid_preamble_def by (blast dest: succeedsE)
  with assms have "extract_preamble self fobj =
             (Inr 4, self\<lparr>date_from := PyDate d1, date_to := PyDate d2,
                           starting_balance := PyStr (strip (readline fobj 2))\<rparr>)"
    by (simp add: valid_preamble_def extract_preamble_def next_line_def Let_def eval_nat_numeral)
  with d show ?thesis by blast
qed

lemma valid_ordinary_not_balance:
  "valid_ordinary_row cur line \<Longrightarrow> \<not> is_balance_row line"
  by (auto simp: valid_ordinary_row_def is_balance_row_def dest!: hasE)

lemma ordinary_row_valid:
  assumes "valid_ordinary_row (currency self) line"
  shows "\<exists>t. ordinary_row self filename lineno line = Inr t \<and>
             built_from self filename lineno line t"
proof -
  from assms have
    a1: "has line ''Booking date'' (\<lambda>b. b \<noteq> CStr ''Account balance'')" and
    a2: "line ''Currency'' = Some (CStr (currency self))" and
    a3: "has line ''Debit'' (\<lambda>debit. has line ''Credit'' (\<lambda>credit.
           truthy debit \<noteq> truthy credit \<and>
           succeeds (format_number (if truthy debit then debit else credit))))" and
    a4: "has line ''Value date'' (\<lambda>v. succeeds (strptime_cell v))" and
    a5: "has line ''Beneficiary / Originator'' (\<lambda>b. succeeds (strip_cell b))"
    unfolding valid_ordinary_row_def by blast+
  from hasE [OF a3] obtain debit where
    debit: "line ''Debit'' = Some debit" and
    a3': "has line ''Credit'' (\<lambda>credit.
           truthy debit \<noteq> truthy credit \<and>
           succeeds (format_number (if truthy debit then debit else credit)))"
    by blast
  from hasE [OF a3'] obtain credit where
    credit: "line ''Credit'' = Some credit" and
    one: "truthy debit \<noteq> truthy credit" and
    ok: "succeeds (format_number (if truthy debit then debit else credit))"
    by blast
  from hasE [OF a4] obtain vd where vd: "line ''Value date'' = Some vd"
    "succeeds (strptime_cell vd)" by blast
  from hasE [OF a5] obtain ben where ben: "line ''Beneficiary / Originator'' = Some ben"
    "succeeds (strip_cell ben)" by blast
  from succeedsE [OF ok] obtain v where
    v: "format_number (if truthy debit then debit else credit) = Inr v" by blast
  from succeedsE [OF vd(2)] obtain d where d: "strptime_cell vd = Inr d" by blast
  from succeedsE [OF ben(2)] obtain p where p: "strip_cell ben = Inr p" by blast
  from one v have dc: "debit_or_credit line lineno = Inr v"
    using debit credit by (cases "truthy debit") (simp_all add: debit_or_credit_def)
  show ?thesis
    using a2 debit credit vd(1) ben(1) v d p dc
    by (simp add: ordinary_row_def built_from_def)
qed

lemma process_row_ordinary:
  assumes "valid_ordinary_row (currency self) line"
  shows "\<exists>t. process_row self filename lineno line entries = (Inr (entries @ [t]), self) \<and>
             built_from self filename lineno line t"
proof -
  from assms obtain b where b: "line ''Booking date'' = Some b" "b \<noteq> CStr ''Account balance''"
    unfolding valid_ordinary_row_def by (auto dest!: hasE)
  from ordinary_row_valid [OF assms] obtain t where
    "ordinary_row self filename lineno line = Inr t" "built_from self filename lineno line t"
    by blast
  with b show ?thesis by (simp add: process_row_def)
qed

lemma process_row_balance:
  assumes "valid_balance_row (currency self) line"
  shows "\<exists>c v. line ''Payment Details'' = Some c \<and> format_number c = Inr v \<and>
           process_row self filename lineno line entries =
             (Inr entries, self\<lparr>finishing_balance := PyDecimal v\<rparr>)"
proof -
  from assms obtain c v where
    "line ''Booking date'' = Some (CStr ''Account balance'')"
    "line ''IBAN'' = Some (CStr (currency self))"
    "line ''Payment Details'' = Some c" "format_number c = Inr v"
    unfolding valid_balance_row_def is_balance_row_def by (auto dest!: hasE succeedsE)
  then show ?thesis by (simp add: process_row_def balance_row_def)
qed

lemma built_from_finishing [simp]:
  "built_from (self\<lparr>finishing_balance := b\<rparr>) filename lineno line t =
   built_from self filename lineno line t"
  by (simp add: built_from_def split: list.splits)

lemma entries_match_finishing [simp]:
  "entries_match (self\<lparr>finishing_balance := b\<rparr>) filename lineno rows ts =
   entries_match self filename lineno rows ts"
  by (induction rows arbitrary: lineno ts) (auto split: list.splits)

lemma extract_rows_append:
  "extract_rows self filename lineno (rs1 @ rs2) entries =
     (case extract_rows self filename lineno rs1 entries of
        (Inl e, self') \<Rightarrow> (Inl e, self')
      | (Inr entries', self') \<Rightarrow> extract_rows self' filename (lineno + length rs1) rs2 entries')"
  by (induction rs1 arbitrary: self lineno entries) (auto split: prod.splits sum.splits)

lemma extract_rows_valid:
  assumes "\<forall>line\<in>set rows. valid_row (currency self) line"
  shows "\<exists>ts. extract_rows self filename lineno rows entries =
               (Inr (entries @ ts),
                self\<lparr>finishing_balance := closing (finishing_balance self) rows\<rparr>) \<and>
             entries_match self filename lineno rows ts"
  using assms
proof (induction rows arbitrary: self lineno entries)
  case Nil
  then show ?case by simp
next
  case (Cons line rest)
  from Cons.prems have v: "valid_row (currency self) line"
    and r: "\<forall>l\<in>set rest. valid_row (currency self) l" by simp_all
  show ?case
  proof (cases "valid_ordinary_row (currency self) line")
    case True
    from process_row_ordinary [OF True] obtain t where
      t: "process_row self filename (lineno + 1) line entries = (Inr (entries @ [t]), self)"
        "built_from self filename (lineno + 1) line t" by blast
    from Cons.IH [OF r, of "lineno + 1" "entries @ [t]"] obtain ts where
      ts: "extract_rows self filename (lineno + 1) rest (entries @ [t]) =
             (Inr ((entries @ [t]) @ ts),
              self\<lparr>finishing_balance := closing (finishing_balance self) rest\<rparr>)"
        "entries_match self filename (lineno + 1) rest ts" by blast
    have "\<not> is_balance_row line" using True by (rule valid_ordinary_not_balance)
    with t ts show ?thesis by (intro exI [of _ "t # ts"]) simp
  next
    case False
    with v have bal: "valid_balance_row (currency self) line" by (simp add: valid_row_def)
    from process_row_balance [OF bal] obtain c v where
      c: "line ''Payment Details'' = Some c" "format_number c = Inr v"
        "process_row self filename (lineno + 1) line entries =
           (Inr entries, self\<lparr>finishing_balance := PyDecimal v\<rparr>)" by blast
    let ?s = "self\<lparr>finishing_balance := PyDecimal v\<rparr>"
    from r have "\<forall>l\<in>set rest. valid_row (currency ?s) l" by simp
    from Cons.IH [OF this, of "lineno + 1" entries] obtain ts where
      ts: "extract_rows ?s filename (lineno + 1) rest entries =
             (Inr (entries @ ts), ?s\<lparr>finishing_balance := closing (finishing_balance ?s) rest\<rparr>)"
        "entries_match ?s filename (lineno + 1) rest ts" by blast
    have "is_balance_row line" using bal by (simp add: valid_balance_row_def)
    with c ts show ?thesis by (intro exI [of _ ts]) simp
  qed
qed

lemma entries_match_length:
  "entries_match self filename lineno rows ts \<Longrightarrow>
   length ts = length (filter (\<lambda>l. \<not> is_balance_row l) rows)"
  by (induction rows arbitrary: lineno ts) (auto split: if_splits list.splits)

lemma entries_match_ordinary:
  assumes "\<forall>l\<in>set rows. \<not> is_balance_row l"
    and "entries_match self filename lineno rows ts"
  shows "length ts = length rows \<and>
         (\<forall>i<length rows. built_from self filename (lineno + 1 + i) (rows ! i) (ts ! i))"
  using assms
proof (induction rows arbitrary: lineno ts)
  case Nil
  then show ?case by simp
next
  case (Cons line rest)
  from Cons.prems obtain t ts' where ts: "ts = t # ts'"
    and t: "built_from self filename (lineno + 1) line t"
    and m: "entries_match self filename (lineno + 1) rest ts'"
    by (auto split: list.splits)
  from Cons.prems(1) have "\<forall>l\<in>set rest. \<not> is_balance_row l" by simp
  from Cons.IH [OF this m] have
    ih: "length ts' = length rest"
      "\<forall>i<length rest. built_from self filename (lineno + 1 + 1 + i) (rest ! i) (ts' ! i)"
    by simp_all
  show ?case
  proof (intro conjI allI impI)
    show "length ts = length (line # rest)" using ts ih(1) by simp
  next
    fix i assume "i < length (line # rest)"
    then show "built_from self filename (lineno + 1 + i) ((line # rest) ! i) (ts ! i)"
      using ts t ih(2) by (cases i) auto
  qed
qed

lemma closing_append:
  "closing b (rs1 @ rs2) = closing (closing b rs1) rs2"
  by (induction rs1 arbitrary: b) simp_all

lemma closing_ordinary:
  "\<forall>l\<in>set rows. \<not> is_balance_row l \<Longrightarrow> closing b rows = b"
  by (induction rows arbitrary: b) simp_all

lemma extract_preamble_config:
  "extract_preamble self fobj = (r, s) \<Longrightarrow>
   currency s = currency self \<and> account s = account self \<and>
   file_encoding s = file_encoding self \<and>
   expected_header_regex s = expected_header_regex self \<and>
   from_to_regex s = from_to_regex self \<and>
   starting_balance_regex s = starting_balance_regex self \<and>
   finishing_balance s = finishing_balance self"
  unfolding extract_preamble_def next_line_def Let_def prod.case
  by (auto split: if_splits sum.splits)

lemma extract_file_rows:
  assumes "valid_preamble self fobj" "fieldnames fobj = Some names"
    "set names = set DATA_HEADERS"
  shows "extract_file self fobj =
           extract_rows (snd (extract_preamble self fobj)) (name fobj) 5
             (reader_rows fobj names) []"
proof -
  from extract_preamble_valid [OF assms(1)] obtain self' where
    "extract_preamble self fobj = (Inr 4, self')" by blast
  with assms(2,3) show ?thesis by (simp add: extract_file_def)
qed

lemma built_from_config:
  "account s = account self \<Longrightarrow> currency s = currency self \<Longrightarrow>
   built_from s filename lineno line t = built_from self filename lineno line t"
  by (simp add: built_from_def split: list.splits)

lemma demo_preamble: "valid_preamble demo_importer (demo_file rows)"
  by code_simp

lemma demo_currency: "currency demo_importer = ''EUR''"
  by (simp add: demo_importer_def CurrentAccount_def)

lemmas decimal_defs =
  remove_commas_def Decimal_def strip_def isspace_def split_sign_def finite_numeral_def
  within_limits_def coefficient_digits_def significant_def MAX_PREC_def MAX_EMAX_def
  MIN_EMIN_def MIN_ETINY_def isdigit_def exponent_part_def nat_of_digits_def digit_val_def
  lower_def Let_def

lemma Decimal_beyond_MAX_EMAX:
  "Decimal ''1e1000000000000000000'' = Inl InvalidOperation"
  "Decimal ''1e999999999999999999'' = Inr (Finite False 1 999999999999999999)"
  "Decimal ''10e999999999999999999'' = Inl InvalidOperation"
  "Decimal ''1e-1999999999999999998'' = Inl InvalidOperation"
  by (simp_all add: decimal_defs)

lemma format_number_1234_56:
  "format_number (CStr ''1,234.56'') = Inr (Finite False 123456 (- 2))"
  by (simp add: decimal_defs)

lemma format_number_50_00:
  "format_number (CStr ''-50.00'') = Inr (Finite True 5000 (- 2))"
  by (simp add: decimal_defs)

lemma format_number_1500_00:
  "format_number (CStr ''1,500.00'') = Inr (Finite False 150000 (- 2))"
  by (simp add: decimal_defs)

lemma demo_payment_cells:
  "dict_row DATA_HEADERS demo_payment ''Booking date'' = Some (CStr ''01/05/2023'')"
  "dict_row DATA_HEADERS demo_payment ''Currency'' = Some (CStr ''EUR'')"
  "dict_row DATA_HEADERS demo_payment ''Debit'' = Some (CStr ''-50.00'')"
  "dict_row DATA_HEADERS demo_payment ''Credit'' = Some (CStr [])"
  "dict_row DATA_HEADERS demo_payment ''Value date'' = Some (CStr ''01/05/2023'')"
  "dict_row DATA_HEADERS demo_payment ''Beneficiary / Originator'' = Some (CStr ''Acme '')"
  by code_simp+

lemma demo_deposit_cells:
  "dict_row DATA_HEADERS demo_deposit ''Booking date'' = Some (CStr ''01/09/2023'')"
  "dict_row DATA_HEADERS demo_deposit ''Currency'' = Some (CStr ''EUR'')"
  "dict_row DATA_HEADERS demo_deposit ''Debit'' = Some (CStr [])"
  "dict_row DATA_HEADERS demo_deposit ''Credit'' = Some (CStr ''1,500.00'')"
  "dict_row DATA_HEADERS demo_deposit ''Value date'' = Some (CStr ''01/10/2023'')"
  "dict_row DATA_HEADERS demo_deposit ''Beneficiary / Originator'' = Some (CStr '' Bob'')"
  by code_simp+

lemma demo_balance_cells:
  "dict_row DATA_HEADERS demo_balance ''Booking date'' = Some (CStr ''Account balance'')"
  "dict_row DATA_HEADERS demo_balance ''IBAN'' = Some (CStr ''EUR'')"
  "dict_row DATA_HEADERS demo_balance ''Payment Details'' = Some (CStr ''1,234.56'')"
  by code_simp+

lemma demo_dates:
  "strptime_cell (CStr ''01/05/2023'') = Inr \<lparr>year = 2023, month = 1, day = 5\<rparr>"
  "strptime_cell (CStr ''01/10/2023'') = Inr \<lparr>year = 2023, month = 1, day = 10\<rparr>"
  by code_simp+

lemma demo_payees:
  "strip_cell (CStr ''Acme '') = Inr ''Acme''"
  "strip_cell (CStr '' Bob'') = Inr ''Bob''"
  by code_simp+

lemma demo_payment_valid: "valid_ordinary_row ''EUR'' (dict_row DATA_HEADERS demo_payment)"
  by (simp add: valid_ordinary_row_def demo_payment_cells succeeds_def format_number_50_00
      demo_dates del: format_number.simps strptime_cell.simps)

lemma demo_deposit_valid: "valid_ordinary_row ''EUR'' (dict_row DATA_HEADERS demo_deposit)"
  by (simp add: valid_ordinary_row_def demo_deposit_cells succeeds_def format_number_1500_00
      demo_dates del: format_number.simps strptime_cell.simps)

lemma demo_balance_valid: "valid_balance_row ''EUR'' (dict_row DATA_HEADERS demo_balance)"
  by (simp add: valid_balance_row_def is_balance_row_def demo_balance_cells succeeds_def
      format_number_1234_56 del: format_number.simps)

lemma demo_account: "account demo_importer = ''Assets:DB:Current''"
  by (simp add: demo_importer_def CurrentAccount_def)

lemma built_from_unique:
  assumes "built_from self filename lineno line t"
    and "line ''Value date'' = Some vd" and "strptime_cell vd = Inr d"
    and "line ''Beneficiary / Originator'' = Some b" and "strip_cell b = Inr p"
    and "line ''Debit'' = Some debit" and "line ''Credit'' = Some credit"
    and "format_number (if truthy debit then debit else credit) = Inr v"
  shows "t = \<lparr>meta_filename = filename, meta_lineno = lineno, txn_date = d, flag = FLAG,
               payee = p, narration = [],
               postings =
                 [\<lparr>posting_account = account self,
                   posting_units = \<lparr>amount_number = v, amount_currency = currency self\<rparr>\<rparr>]\<rparr>"
proof -
  from assms have f: "meta_filename t = filename" "meta_lineno t = lineno" "txn_date t = d"
    "flag t = FLAG" "payee t = p" "narration t = []"
    by (simp_all add: built_from_def del: format_number.simps strptime_cell.simps
        strip_cell.simps)
  from assms obtain q where q: "postings t = [q]" "posting_account q = account self"
    "amount_currency (posting_units q) = currency self"
    "amount_number (posting_units q) = v"
    by (auto simp: built_from_def split: list.splits
        simp del: format_number.simps strptime_cell.simps strip_cell.simps)
  from q(3,4) have "posting_units q = \<lparr>amount_number = v, amount_currency = currency self\<rparr>"
    by (cases "posting_units q") simp
  with q(2) have "q = \<lparr>posting_account = account self,
      posting_units = \<lparr>amount_number = v, amount_currency = currency self\<rparr>\<rparr>"
    by (cases q) simp
  with q(1) f show ?thesis by (cases t) simp
qed

lemma demo_fieldnames: "fieldnames (demo_file (names # rows)) = Some names"
  by (simp add: fieldnames_def demo_file_def)

lemma demo_reader_rows:
  "reader_rows (demo_file (names # rows)) names' =
     map (dict_row names') (filter (\<lambda>r. r \<noteq> []) rows)"
  by (simp add: reader_rows_def demo_file_def)

lemma demo_name: "name (demo_file rows) = ''statement.csv''"
  by (simp add: demo_file_def)

lemma demo_payment_nonempty: "demo_payment \<noteq> []"
  by (simp add: demo_payment_def)

lemma demo_balance_nonempty: "demo_balance \<noteq> []"
  by (simp add: demo_balance_def)

lemma demo_deposit_nonempty: "demo_deposit \<noteq> []"
  by (simp add: demo_deposit_def)

lemma empty_ok_lang: "empty_ok r \<longleftrightarrow> [] \<in> lang r"
  by (induction r) (auto intro: many.many_nil)

lemma lang_alt: "lang (alt r s) = lang r \<union> lang s"
  by (induction r s rule: alt.induct) auto

lemma lang_cat: "lang (cat r s) = lang (Then r s)"
  by (induction r s rule: cat.induct) auto

lemma many_cons:
  "c # w \<in> many A \<longleftrightarrow> (\<exists>u v. w = u @ v \<and> c # u \<in> A \<and> v \<in> many A)"
proof
  assume "c # w \<in> many A"
  then show "\<exists>u v. w = u @ v \<and> c # u \<in> A \<and> v \<in> many A"
  proof (induction "c # w" arbitrary: w rule: many.induct)
    case (many_app u v)
    show ?case
    proof (cases u)
      case Nil
      with many_app show ?thesis by simp
    next
      case (Cons a u')
      with many_app.hyps(1,2,4) show ?thesis by auto
    qed
  qed
next
  assume "\<exists>u v. w = u @ v \<and> c # u \<in> A \<and> v \<in> many A"
  then obtain u v where "w = u @ v" "c # u \<in> A" "v \<in> many A" by blast
  then show "c # w \<in> many A"
    using many.many_app [of "c # u" A v] by simp
qed

lemma lang_after: "lang (after c r) = {w. c # w \<in> lang r}"
proof (induction r)
  case (Then r s)
  show ?case
  proof (rule set_eqI)
    fix w
    show "w \<in> lang (after c (Then r s)) \<longleftrightarrow> w \<in> {w. c # w \<in> lang (Then r s)}"
      using Then by (auto simp: lang_alt lang_cat empty_ok_lang Cons_eq_append_conv)
  qed
next
  case (Many r)
  then show ?case by (auto simp: lang_cat many_cons)
qed (auto simp: lang_alt)

lemma re_match_iff:
  "re_match r eol s \<longleftrightarrow> (\<exists>p rest. s = p @ rest \<and> p \<in> lang r \<and> eol rest)"
proof (induction s arbitrary: r)
  case Nil
  show ?case by (simp add: empty_ok_lang)
next
  case (Cons c cs)
  show ?case
    by (auto simp: Cons empty_ok_lang lang_after Cons_eq_append_conv)
qed

lemma in_lang_seq_Nil: "w \<in> lang (seq []) \<longleftrightarrow> w = []"
  by simp

lemma in_lang_seq_Cons:
  "w \<in> lang (seq (r # rs)) \<longleftrightarrow> (\<exists>u v. w = u @ v \<and> u \<in> lang r \<and> v \<in> lang (seq rs))"
  by auto

lemma in_lang_literal: "w \<in> lang (literal s) \<longleftrightarrow> w = s"
  by (induction s arbitrary: w) auto

lemma in_lang_space: "w \<in> lang (One Space) \<longleftrightarrow> (\<exists>c. w = [c] \<and> isspace c)"
  by auto

lemma in_lang_many_dot: "w \<in> lang (Many (One Dot)) \<longleftrightarrow> newline \<notin> set w"
proof
  assume "w \<in> lang (Many (One Dot))"
  then have "w \<in> many {[c] | c. c \<noteq> newline}" by simp
  then show "newline \<notin> set w" by (induction rule: many.induct) auto
next
  assume "newline \<notin> set w"
  then have "w \<in> many {[c] | c. c \<noteq> newline}"
  proof (induction w)
    case Nil
    show ?case by (rule many.many_nil)
  next
    case (Cons c w)
    then have "[c] \<in> {[c] | c. c \<noteq> newline}" and "w \<in> many {[c] | c. c \<noteq> newline}"
      by auto
    from many.many_app [OF this] show ?case by simp
  qed
  then show "w \<in> lang (Many (One Dot))" by simp
qed

lemma in_lang_seq_literal:
  "w \<in> lang (seq (literal s # rs)) \<longleftrightarrow> (\<exists>v. w = s @ v \<and> v \<in> lang (seq rs))"
proof -
  have "w \<in> lang (seq (literal s # rs)) \<longleftrightarrow>
      (\<exists>u v. w = u @ v \<and> u \<in> lang (literal s) \<and> v \<in> lang (seq rs))"
    by (rule in_lang_seq_Cons)
  also have "\<dots> \<longleftrightarrow> (\<exists>u v. w = u @ v \<and> u = s \<and> v \<in> lang (seq rs))"
    by (simp only: in_lang_literal)
  also have "\<dots> \<longleftrightarrow> (\<exists>v. w = s @ v \<and> v \<in> lang (seq rs))"
    by blast
  finally show ?thesis .
qed

lemma in_lang_seq_space:
  "w \<in> lang (seq (One Space # rs)) \<longleftrightarrow>
   (\<exists>c v. w = [c] @ v \<and> isspace c \<and> v \<in> lang (seq rs))"
proof -
  have "w \<in> lang (seq (One Space # rs)) \<longleftrightarrow>
      (\<exists>u v. w = u @ v \<and> u \<in> lang (One Space) \<and> v \<in> lang (seq rs))"
    by (rule in_lang_seq_Cons)
  also have "\<dots> \<longleftrightarrow> (\<exists>u v. w = u @ v \<and> (\<exists>c. u = [c] \<and> isspace c) \<and> v \<in> lang (seq rs))"
    by (simp only: in_lang_space)
  also have "\<dots> \<longleftrightarrow> (\<exists>c v. w = [c] @ v \<and> isspace c \<and> v \<in> lang (seq rs))"
    by blast
  finally show ?thesis .
qed

lemma in_lang_seq_many_dot:
  "w \<in> lang (seq (Many (One Dot) # rs)) \<longleftrightarrow>
   (\<exists>m v. w = m @ v \<and> newline \<notin> set m \<and> v \<in> lang (seq rs))"
proof -
  have "w \<in> lang (seq (Many (One Dot) # rs)) \<longleftrightarrow>
      (\<exists>m v. w = m @ v \<and> m \<in> lang (Many (One Dot)) \<and> v \<in> lang (seq rs))"
    by (rule in_lang_seq_Cons)
  then show ?thesis by (simp only: in_lang_many_dot)
qed

lemma header_regex:
  "expected_header_regex (CurrentAccount branch number acc cur enc) =
     seq [literal ''Transactions'', One Space, Many (One Dot),
       literal '';;;Customer'', One Space, literal ''number:'', One Space, literal branch, One Space, literal number]"
  by (simp add: CurrentAccount_def)

lemma header_lang:
  "p \<in> lang (expected_header_regex (CurrentAccount branch number acc cur enc)) \<longleftrightarrow>
   (\<exists>s1 m s2 s3 s4.
      p = ''Transactions'' @ [s1] @ m @ '';;;Customer'' @ [s2] @ ''number:'' @ [s3] @
          branch @ [s4] @ number \<and>
      isspace s1 \<and> isspace s2 \<and> isspace s3 \<and> isspace s4 \<and> newline \<notin> set m)"
proof
  assume "p \<in> lang (expected_header_regex (CurrentAccount branch number acc cur enc))"
  then have m0: "p \<in> lang (seq [literal ''Transactions'', One Space, Many (One Dot), literal '';;;Customer'', One Space, literal ''number:'', One Space, literal branch, One Space, literal number])"
    by (simp only: header_regex)
  from m0 [unfolded in_lang_seq_literal] obtain v1 where
    e0: "p = ''Transactions'' @ v1" and m1: "v1 \<in> lang (seq [One Space, Many (One Dot), literal '';;;Customer'', One Space, literal ''number:'', One Space, literal branch, One Space, literal number])"
    by blast
  from m1 [unfolded in_lang_seq_space] obtain s1 v2 where
    e1: "v1 = [s1] @ v2" and c1: "isspace s1" and m2: "v2 \<in> lang (seq [Many (One Dot), literal '';;;Customer'', One Space, literal ''number:'', One Space, literal branch, One Space, literal number])"
    by blast
  from m2 [unfolded in_lang_seq_many_dot] obtain m v3 where
    e2: "v2 = m @ v3" and c2: "newline \<notin> set m" and m3: "v3 \<in> lang (seq [literal '';;;Customer'', One Space, literal ''number:'', One Space, literal branch, One Space, literal number])"
    by blast
  from m3 [unfolded in_lang_seq_literal] obtain v4 where
    e3: "v3 = '';;;Customer'' @ v4" and m4: "v4 \<in> lang (seq [One Space, literal ''number:'', One Space, literal branch, One Space, literal number])"
    by blast
  from m4 [unfolded in_lang_seq_space] obtain s2 v5 where
    e4: "v4 = [s2] @ v5" and c4: "isspace s2" and m5: "v5 \<in> lang (seq [literal ''number:'', One Space, literal branch, One Space, literal number])"
    by blast
  from m5 [unfolded in_lang_seq_literal] obtain v6 where
    e5: "v5 = ''number:'' @ v6" and m6: "v6 \<in> lang (seq [One Space, literal branch, One Space, literal number])"
    by blast
  from m6 [unfolded in_lang_seq_space] obtain s3 v7 where
    e6: "v6 = [s3] @ v7" and c6: "isspace s3" and m7: "v7 \<in> lang (seq [literal branch, One Space, literal number])"
    by blast
  from m7 [unfolded in_lang_seq_literal] obtain v8 where
    e7: "v7 = branch @ v8" and m8: "v8 \<in> lang (seq [One Space, literal number])"
    by blast
  from m8 [unfolded in_lang_seq_space] obtain s4 v9 where
    e8: "v8 = [s4] @ v9" and c8: "isspace s4" and m9: "v9 \<in> lang (seq [literal number])"
    by blast
  from m9 [unfolded in_lang_seq_literal] obtain v10 where
    e9: "v9 = number @ v10" and m10: "v10 \<in> lang (seq [])"
    by blast
  from m10 have e10: "v10 = []" by simp
  have "p = ''Transactions'' @ [s1] @ m @ '';;;Customer'' @ [s2] @ ''number:'' @ [s3] @
      branch @ [s4] @ number"
    unfolding e0 e1 e2 e3 e4 e5 e6 e7 e8 e9 e10 by simp
  with c1 c4 c6 c8 c2
  show "\<exists>s1 m s2 s3 s4.
      p = ''Transactions'' @ [s1] @ m @ '';;;Customer'' @ [s2] @ ''number:'' @ [s3] @
          branch @ [s4] @ number \<and>
      isspace s1 \<and> isspace s2 \<and> isspace s3 \<and> isspace s4 \<and> newline \<notin> set m"
    by blast
next
  assume "\<exists>s1 m s2 s3 s4.
      p = ''Transactions'' @ [s1] @ m @ '';;;Customer'' @ [s2] @ ''number:'' @ [s3] @
          branch @ [s4] @ number \<and>
      isspace s1 \<and> isspace s2 \<and> isspace s3 \<and> isspace s4 \<and> newline \<notin> set m"
  then obtain s1 m s2 s3 s4 where
    p: "p = ''Transactions'' @ [s1] @ m @ '';;;Customer'' @ [s2] @ ''number:'' @ [s3] @
          branch @ [s4] @ number" and
    c: "isspace s1" "isspace s2" "isspace s3" "isspace s4" "newline \<notin> set m"
    by blast
  have k10: "[] \<in> lang (seq [])" by simp
  have k9: "number @ [] \<in> lang (seq [literal number])"
    unfolding in_lang_seq_literal using k10 c by blast
  have k8: "[s4] @ number @ [] \<in> lang (seq [One Space, literal number])"
    unfolding in_lang_seq_space using k9 c by blast
  have k7: "branch @ [s4] @ number @ [] \<in> lang (seq [literal branch, One Space, literal number])"
    unfolding in_lang_seq_literal using k8 c by blast
  have k6: "[s3] @ branch @ [s4] @ number @ [] \<in> lang (seq [One Space, literal branch, One Space, literal number])"
    unfolding in_lang_seq_space using k7 c by blast
  have k5: "''number:'' @ [s3] @ branch @ [s4] @ number @ [] \<in> lang (seq [literal ''number:'', One Space, literal branch, One Space, literal number])"
    unfolding in_lang_seq_literal using k6 c by blast
  have k4: "[s2] @ ''number:'' @ [s3] @ branch @ [s4] @ number @ [] \<in> lang (seq [One Space, literal ''number:'', One Space, literal branch, One Space, literal number])"
    unfolding in_lang_seq_space using k5 c by blast
  have k3: "'';;;Customer'' @ [s2] @ ''number:'' @ [s3] @ branch @ [s4] @ number @ [] \<in> lang (seq [literal '';;;Customer'', One Space, literal ''number:'', One Space, literal branch, One Space, literal number])"
    unfolding in_lang_seq_literal using k4 c by blast
  have k2: "m @ '';;;Customer'' @ [s2] @ ''number:'' @ [s3] @ branch @ [s4] @ number @ [] \<in> lang (seq [Many (One Dot), literal '';;;Customer'', One Space, literal ''number:'', One Space, literal branch, One Space, literal number])"
    unfolding in_lang_seq_many_dot using k3 c by blast
  have k1: "[s1] @ m @ '';;;Customer'' @ [s2] @ ''number:'' @ [s3] @ branch @ [s4] @ number @ [] \<in> lang (seq [One Space, Many (One Dot), literal '';;;Customer'', One Space, literal ''number:'', One Space, literal branch, One Space, literal number])"
    unfolding in_lang_seq_space using k2 c by blast
  have k0: "''Transactions'' @ [s1] @ m @ '';;;Customer'' @ [s2] @ ''number:'' @ [s3] @ branch @ [s4] @ number @ [] \<in> lang (seq [literal ''Transactions'', One Space, Many (One Dot), literal '';;;Customer'', One Space, literal ''number:'', One Space, literal branch, One Space, literal number])"
    unfolding in_lang_seq_literal using k1 c by blast
  from k0 have "p \<in> lang (seq [literal ''Transactions'', One Space, Many (One Dot), literal '';;;Customer'', One Space, literal ''number:'', One Space, literal branch, One Space, literal number])"
    unfolding p by simp
  then show "p \<in> lang (expected_header_regex (CurrentAccount branch number acc cur enc))"
    by (simp only: header_regex)
qed

lemma identify_demo: "identify demo_importer (demo_file [])"
  by code_simp

lemma demo_shifted:
  "\<not> identify demo_importer demo_shifted_file"
  "re_match (expected_header_regex demo_importer) dollar_multiline
     (drop 17 (contents demo_shifted_file))"
  "take 17 (contents demo_shifted_file) = ''Statement export'' @ [newline]"
  by code_simp+

lemma demo_preamble_result:
  "extract_preamble demo_importer (demo_file rows) = (Inr 4, demo_parsed)"
proof -
  have d: "strptime (take 10 (strip (readline (demo_file rows) 1))) =
        Inr \<lparr>year = 2023, month = 1, day = 1\<rparr>"
      "strptime (take 10 (drop 13 (strip (readline (demo_file rows) 1)))) =
        Inr \<lparr>year = 2023, month = 1, day = 31\<rparr>"
      "strip (readline (demo_file rows) 2) = ''Old balance:;;;;1,234.56;EUR''"
    by code_simp+
  from extract_preamble_valid [OF demo_preamble, of rows] obtain d1 d2 where
    a: "strptime (take 10 (strip (readline (demo_file rows) 1))) = Inr d1"
      "strptime (take 10 (drop 13 (strip (readline (demo_file rows) 1)))) = Inr d2"
      "extract_preamble demo_importer (demo_file rows) =
         (Inr 4, demo_importer\<lparr>date_from := PyDate d1, date_to := PyDate d2,
            starting_balance := PyStr (strip (readline (demo_file rows) 2))\<rparr>)"
    by blast
  from a(1) d(1) have d1: "d1 = \<lparr>year = 2023, month = 1, day = 1\<rparr>"
    by (simp only: sum.inject)
  from a(2) d(2) have d2: "d2 = \<lparr>year = 2023, month = 1, day = 31\<rparr>"
    by (simp only: sum.inject)
  show ?thesis
    unfolding a(3) d1 d2 d(3) demo_parsed_def ..
qed

lemma demo_parsed_config:
  "currency demo_parsed = ''EUR''" "account demo_parsed = ''Assets:DB:Current''"
  by (simp_all add: demo_parsed_def demo_currency demo_account)

lemma demo_file_rows:
  "extract_file demo_importer (demo_file (DATA_HEADERS # rows)) =
     extract_rows demo_parsed ''statement.csv'' 5
       (map (dict_row DATA_HEADERS) (filter (\<lambda>r. r \<noteq> []) rows)) []"
  using extract_file_rows [OF demo_preamble demo_fieldnames refl, of rows]
  by (simp add: demo_preamble_result demo_reader_rows demo_name)

lemma format_number_dotted:
  "format_number (CStr ''1.234,56'') = Inr (Finite False 123456 (- 5))"
  by (simp add: decimal_defs)

lemma process_row_balance_cell:
  assumes "line ''Booking date'' = Some (CStr ''Account balance'')"
    and "line ''IBAN'' = Some (CStr (currency self))"
    and "line ''Payment Details'' = Some c" and "format_number c = Inr v"
  shows "process_row self filename lineno line entries =
           (Inr entries, self\<lparr>finishing_balance := PyDecimal v\<rparr>)"
  using assms by (simp add: process_row_def balance_row_def)

lemma process_row_frame:
  "without_closing (snd (process_row self filename lineno line entries)) =
   without_closing self"
  by (simp add: process_row_def without_closing_def split: sum.splits)

lemma extract_rows_frame:
  "without_closing (snd (extract_rows self filename lineno rows entries)) =
   without_closing self"
proof (induction rows arbitrary: self lineno entries)
  case Nil
  show ?case by simp
next
  case (Cons line rest)
  show ?case
  proof (cases "process_row self filename (lineno + 1) line entries")
    case (Pair r s)
    with process_row_frame [of self filename "lineno + 1" line entries]
    have s: "without_closing s = without_closing self" by simp
    show ?thesis
    proof (cases r)
      case (Inl e)
      with Pair s show ?thesis by simp
    next
      case (Inr es)
      with Pair s Cons [of s "lineno + 1" es] show ?thesis by simp
    qed
  qed
qed

lemma extract_file_frame:
  "without_closing (snd (extract_file self fobj)) =
   without_closing (snd (extract_preamble self fobj))"
proof (cases "extract_preamble self fobj")
  case (Pair r s)
  show ?thesis
  proof (cases r)
    case (Inl e)
    with Pair show ?thesis by (simp add: extract_file_def)
  next
    case (Inr n)
    with Pair show ?thesis
      by (simp add: extract_file_def extract_rows_frame split: option.splits)
  qed
qed

lemma without_closing_fields:
  assumes "without_closing s = without_closing t"
  shows "account s = account t" "currency s = currency t"
    "file_encoding s = file_encoding t"
    "expected_header_regex s = expected_header_regex t"
    "from_to_regex s = from_to_regex t"
    "starting_balance_regex s = starting_balance_regex t"
    "date_from s = date_from t" "date_to s = date_to t"
    "starting_balance s = starting_balance t"
proof -
  show "account s = account t"
    using arg_cong [OF assms, of account] by (simp add: without_closing_def)
  show "currency s = currency t"
    using arg_cong [OF assms, of currency] by (simp add: without_closing_def)
  show "file_encoding s = file_encoding t"
    using arg_cong [OF assms, of file_encoding] by (simp add: without_closing_def)
  show "expected_header_regex s = expected_header_regex t"
    using arg_cong [OF assms, of expected_header_regex] by (simp add: without_closing_def)
  show "from_to_regex s = from_to_regex t"
    using arg_cong [OF assms, of from_to_regex] by (simp add: without_closing_def)
  show "starting_balance_regex s = starting_balance_regex t"
    using arg_cong [OF assms, of starting_balance_regex] by (simp add: without_closing_def)
  show "date_from s = date_from t"
    using arg_cong [OF assms, of date_from] by (simp add: without_closing_def)
  show "date_to s = date_to t"
    using arg_cong [OF assms, of date_to] by (simp add: without_closing_def)
  show "starting_balance s = starting_balance t"
    using arg_cong [OF assms, of starting_balance] by (simp add: without_closing_def)
qed

lemma demo_balance_dotted_cells:
  "dict_row DATA_HEADERS demo_balance_dotted ''Booking date'' = Some (CStr ''Account balance'')"
  "dict_row DATA_HEADERS demo_balance_dotted ''IBAN'' = Some (CStr ''EUR'')"
  "dict_row DATA_HEADERS demo_balance_dotted ''Payment Details'' = Some (CStr ''1.234,56'')"
  by code_simp+

lemma demo_balance_dotted_nonempty: "demo_balance_dotted \<noteq> []"
  by (simp add: demo_balance_dotted_def)

lemma entries_match_config:
  "account s = account self \<Longrightarrow> currency s = currency self \<Longrightarrow>
   entries_match s filename lineno rows ts = entries_match self filename lineno rows ts"
proof (induction rows arbitrary: lineno ts)
  case Nil
  show ?case by simp
next
  case (Cons line rest)
  show ?case
  proof (cases "is_balance_row line")
    case True
    with Cons show ?thesis by simp
  next
    case False
    show ?thesis
    proof (cases ts)
      case Nil
      with False show ?thesis by simp
    next
      case (Cons t ts')
      with False Cons.IH [OF Cons.prems, of "lineno + 1" ts']
        built_from_config [OF Cons.prems, of filename "lineno + 1" line t]
      show ?thesis by simp
    qed
  qed
qed

lemma extract_file_upto:
  assumes "valid_preamble self fobj"
    and "fieldnames fobj = Some names" and "set names = set DATA_HEADERS"
    and "reader_rows fobj names = before @ rest"
    and "\<forall>l\<in>set before. valid_row (currency self) l"
  shows "\<exists>s ts.
           without_closing s = without_closing (snd (extract_preamble self fobj)) \<and>
           currency s = currency self \<and> account s = account self \<and>
           finishing_balance s = closing (finishing_balance self) before \<and>
           entries_match self (name fobj) 5 before ts \<and>
           extract_file self fobj =
             extract_rows s (name fobj) (5 + length before) rest ts"
proof -
  let ?s = "snd (extract_preamble self fobj)"
  have cfg: "currency ?s = currency self" "account ?s = account self"
    "finishing_balance ?s = finishing_balance self"
    using extract_preamble_config [of self fobj "fst (extract_preamble self fobj)" ?s]
    by simp_all
  have rows: "extract_file self fobj =
      extract_rows ?s (name fobj) 5 (before @ rest) []"
    using extract_file_rows [OF assms(1-3)] assms(4) by simp
  have v: "\<forall>line\<in>set before. valid_row (currency ?s) line"
    using assms(5) cfg by simp
  from extract_rows_valid [OF v, of "name fobj" 5 "[]"] obtain ts where
    ts: "extract_rows ?s (name fobj) 5 before [] =
           (Inr ts, ?s\<lparr>finishing_balance := closing (finishing_balance ?s) before\<rparr>)"
      "entries_match ?s (name fobj) 5 before ts" by auto
  let ?s1 = "?s\<lparr>finishing_balance := closing (finishing_balance ?s) before\<rparr>"
  have 1: "without_closing ?s1 = without_closing ?s" by (simp add: without_closing_def)
  have 2: "currency ?s1 = currency self" "account ?s1 = account self"
    using cfg by simp_all
  have 3: "finishing_balance ?s1 = closing (finishing_balance self) before"
    using cfg by simp
  have 4: "entries_match self (name fobj) 5 before ts"
    using ts(2) entries_match_config [OF cfg(2) cfg(1)] by simp
  have 5: "extract_file self fobj = extract_rows ?s1 (name fobj) (5 + length before) rest ts"
    using rows ts(1) by (simp add: extract_rows_append)
  show ?thesis
    apply (intro exI conjI)
         apply (rule 1)
        apply (rule 2(1))
       apply (rule 2(2))
      apply (rule 3)
     apply (rule 4)
    apply (rule 5)
    done
qed
















lemma demo_nonempty:
  "demo_balance_usd \<noteq> []" "demo_both \<noteq> []" "demo_neither \<noteq> []"
  "demo_bad_number \<noteq> []" "demo_bad_date \<noteq> []" "demo_balance_early \<noteq> []"
  by (simp_all add: demo_balance_usd_def demo_both_def demo_neither_def
      demo_bad_number_def demo_bad_date_def demo_balance_early_def)





lemma demo_not_balance_rows:
  "\<not> is_balance_row (dict_row DATA_HEADERS demo_payment)"
  "\<not> is_balance_row (dict_row DATA_HEADERS demo_deposit)"
  using demo_payment_valid demo_deposit_valid
  by (simp_all add: valid_ordinary_not_balance)


lemma entries_match_nth_after:
  assumes "entries_match self filename lineno (pre @ post) ts"
    and "\<forall>l\<in>set post. \<not> is_balance_row l" and "i < length post"
  shows "built_from self filename (lineno + length pre + 1 + i) (post ! i)
           (ts ! (length (filter (\<lambda>l. \<not> is_balance_row l) pre) + i))"
  using assms(1)
proof (induction pre arbitrary: lineno ts)
  case Nil
  then have "entries_match self filename lineno post ts" by simp
  from entries_match_ordinary [OF assms(2) this] assms(3) show ?case by simp
next
  case (Cons line pre)
  show ?case
  proof (cases "is_balance_row line")
    case True
    with Cons.prems have "entries_match self filename (lineno + 1) (pre @ post) ts" by simp
    from Cons.IH [OF this] True show ?thesis by (simp add: add.commute add.left_commute)
  next
    case False
    with Cons.prems obtain t ts' where ts: "ts = t # ts'"
      and m: "entries_match self filename (lineno + 1) (pre @ post) ts'"
      by (cases ts) simp_all
    from Cons.IH [OF m] False ts show ?thesis
      by (simp add: add.commute add.left_commute)
  qed
qed

lemma closing_balance_last:
  assumes "valid_balance_row cur bal" and "\<forall>l\<in>set post. \<not> is_balance_row l"
  shows "\<exists>c v. bal ''Payment Details'' = Some c \<and> format_number c = Inr v \<and>
           closing b (pre @ [bal] @ post) = PyDecimal v"
proof -
  from assms(1) obtain c v where
    c: "is_balance_row bal" "bal ''Payment Details'' = Some c" "format_number c = Inr v"
    unfolding valid_balance_row_def by (auto dest!: hasE succeedsE)
  have "closing b (pre @ [bal] @ post) = closing (closing (closing b pre) [bal]) post"
    by (simp only: closing_append)
  also have "\<dots> = closing (closing b pre) [bal]"
    by (rule closing_ordinary [OF assms(2)])
  also have "\<dots> = PyDecimal v" using c by simp
  finally show ?thesis using c(2,3) by blast
qed





lemma demo_balance_early_cells:
  "dict_row DATA_HEADERS demo_balance_early ''Booking date'' = Some (CStr ''Account balance'')"
  "dict_row DATA_HEADERS demo_balance_early ''IBAN'' = Some (CStr ''EUR'')"
  "dict_row DATA_HEADERS demo_balance_early ''Payment Details'' = Some (CStr ''99.00'')"
  by code_simp+

lemma format_number_99_00:
  "format_number (CStr ''99.00'') = Inr (Finite False 9900 (- 2))"
  by (simp add: decimal_defs)

lemma demo_balance_early_valid:
  "valid_balance_row ''EUR'' (dict_row DATA_HEADERS demo_balance_early)"
  by (simp add: valid_balance_row_def is_balance_row_def demo_balance_early_cells succeeds_def
      format_number_99_00 del: format_number.simps)

lemma demo_is_balance_rows:
  "is_balance_row (dict_row DATA_HEADERS demo_balance)"
  "is_balance_row (dict_row DATA_HEADERS demo_balance_early)"
  by (simp_all add: is_balance_row_def demo_balance_cells demo_balance_early_cells)























section \<open>Valid statements\<close>

text \<open>
  Claim C1. For a statement with a valid preamble, the expected table header, \<open>N\<close> valid
  ordinary rows and then one valid row whose booking date is \<^verbatim>\<open>Account balance\<close>,
  \<^verbatim>\<open>extract\<close> returns exactly \<open>N\<close> transactions, the \<open>i\<close>-th one built from the
  \<open>i\<close>-th row (counting from 0) with the value \<open>6 + i\<close> of the line counter, and leaves
  the decimal of the last row's payment details as the closing balance; the last row
  yields no transaction.
\<close>

theorem extract_valid_statement:
  assumes "valid_preamble self fobj"
    and "fieldnames fobj = Some names" and "set names = set DATA_HEADERS"
    and "reader_rows fobj names = ords @ [bal]"
    and "\<forall>line\<in>set ords. valid_ordinary_row (currency self) line"
    and "valid_balance_row (currency self) bal"
  shows "\<exists>entries self' v.
           extract_file self fobj = (Inr entries, self') \<and>
           length entries = length ords \<and>
           (\<forall>i<length ords. built_from self (name fobj) (6 + i) (ords ! i) (entries ! i)) \<and>
           finishing_balance self' = PyDecimal v \<and>
           has bal ''Payment Details'' (\<lambda>c. format_number c = Inr v)"
proof -
  let ?s = "snd (extract_preamble self fobj)"
  have cfg: "currency ?s = currency self" "account ?s = account self"
    using extract_preamble_config [of self fobj "fst (extract_preamble self fobj)" ?s]
    by simp_all
  have rows: "extract_file self fobj =
      extract_rows ?s (name fobj) 5 (ords @ [bal]) []"
    using extract_file_rows [OF assms(1-3)] assms(4) by simp
  have ords: "\<forall>line\<in>set ords. valid_row (currency ?s) line"
    using assms(5) cfg by (simp add: valid_row_def)
  from extract_rows_valid [OF ords, of "name fobj" 5 "[]"] obtain ts where
    ts: "extract_rows ?s (name fobj) 5 ords [] =
           (Inr ts, ?s\<lparr>finishing_balance := closing (finishing_balance ?s) ords\<rparr>)"
      "entries_match ?s (name fobj) 5 ords ts" by auto
  let ?s1 = "?s\<lparr>finishing_balance := closing (finishing_balance ?s) ords\<rparr>"
  have "valid_balance_row (currency ?s1) bal" using assms(6) cfg by simp
  from process_row_balance [OF this, of "name fobj" "5 + length ords + 1" ts]
  obtain c v where
    c: "bal ''Payment Details'' = Some c" "format_number c = Inr v"
      "process_row ?s1 (name fobj) (5 + length ords + 1) bal ts =
         (Inr ts, ?s1\<lparr>finishing_balance := PyDecimal v\<rparr>)" by blast
  have res: "extract_file self fobj = (Inr ts, ?s1\<lparr>finishing_balance := PyDecimal v\<rparr>)"
    using rows ts(1) c(3) by (simp add: extract_rows_append)
  have nb: "\<forall>l\<in>set ords. \<not> is_balance_row l"
    using assms(5) by (blast dest: valid_ordinary_not_balance)
  from entries_match_ordinary [OF nb ts(2)] have
    len: "length ts = length ords" and
    each: "\<forall>i<length ords. built_from ?s (name fobj) (5 + 1 + i) (ords ! i) (ts ! i)"
    by simp_all
  have each': "\<forall>i<length ords. built_from self (name fobj) (6 + i) (ords ! i) (ts ! i)"
    using each cfg by (simp add: built_from_config [of ?s self])
  have fin: "finishing_balance (?s1\<lparr>finishing_balance := PyDecimal v\<rparr>) = PyDecimal v"
    by simp
  have pd: "has bal ''Payment Details'' (\<lambda>c. format_number c = Inr v)"
    using c(1,2) by (simp add: has_def)
  show ?thesis
    apply (intro exI conjI)
        apply (rule res)
       apply (rule len)
      apply (rule each')
     apply (rule fin)
    apply (rule pd)
    done
qed

theorem extract_valid_statement_witness:
  "\<exists>self'.
     extract_file demo_importer
       (demo_file [DATA_HEADERS, demo_payment, demo_deposit, demo_balance]) =
       (Inr [demo_payment_entry, demo_deposit_entry], self') \<and>
     finishing_balance self' = PyDecimal (Finite False 123456 (- 2))"
proof -
  let ?f = "demo_file [DATA_HEADERS, demo_payment, demo_deposit, demo_balance]"
  let ?p = "dict_row DATA_HEADERS demo_payment"
  let ?d = "dict_row DATA_HEADERS demo_deposit"
  let ?b = "dict_row DATA_HEADERS demo_balance"
  have rows: "reader_rows ?f DATA_HEADERS = [?p, ?d] @ [?b]"
    by (simp add: demo_reader_rows demo_payment_nonempty demo_deposit_nonempty
        demo_balance_nonempty)
  have ords: "\<forall>line\<in>set [?p, ?d]. valid_ordinary_row (currency demo_importer) line"
    using demo_payment_valid demo_deposit_valid
    by (simp only: demo_currency list.set ball_simps simp_thms)
  have bal: "valid_balance_row (currency demo_importer) ?b"
    using demo_balance_valid by (simp only: demo_currency)
  from extract_valid_statement [OF demo_preamble demo_fieldnames refl rows ords bal]
  obtain entries self' v where
    r1: "extract_file demo_importer ?f = (Inr entries, self')" and
    r2: "length entries = length [?p, ?d]" and
    r3: "\<forall>i<length [?p, ?d].
           built_from demo_importer (name ?f) (6 + i) ([?p, ?d] ! i) (entries ! i)" and
    r4: "finishing_balance self' = PyDecimal v" and
    r5: "has ?b ''Payment Details'' (\<lambda>c. format_number c = Inr v)"
    by blast
  from r2 obtain t1 t2 where e: "entries = [t1, t2]"
    by (cases entries; cases "tl entries"; cases "tl (tl entries)") simp_all
  from r3 [rule_format, of 0] have b1: "built_from demo_importer ''statement.csv'' 6 ?p t1"
    by (simp add: demo_name e)
  from r3 [rule_format, of 1] have b2: "built_from demo_importer ''statement.csv'' 7 ?d t2"
    by (simp add: demo_name e)
  have t1: "t1 = demo_payment_entry"
    using built_from_unique [OF b1 demo_payment_cells(5) demo_dates(1) demo_payment_cells(6)
        demo_payees(1) demo_payment_cells(3) demo_payment_cells(4)]
    by (simp add: format_number_50_00 demo_payment_entry_def FLAG_def demo_account
        demo_currency del: format_number.simps)
  have t2: "t2 = demo_deposit_entry"
    using built_from_unique [OF b2 demo_deposit_cells(5) demo_dates(2) demo_deposit_cells(6)
        demo_payees(2) demo_deposit_cells(3) demo_deposit_cells(4)]
    by (simp add: format_number_1500_00 demo_deposit_entry_def FLAG_def demo_account
        demo_currency del: format_number.simps)
  from r5 have "format_number (CStr ''1,234.56'') = Inr v"
    by (simp only: has_def demo_balance_cells option.case)
  then have v: "v = Finite False 123456 (- 2)"
    by (simp only: format_number_1234_56 sum.inject)
  from r1 e t1 t2 have x1: "extract_file demo_importer ?f =
      (Inr [demo_payment_entry, demo_deposit_entry], self')" by simp
  from r4 v have x2: "finishing_balance self' = PyDecimal (Finite False 123456 (- 2))"
    by simp
  show ?thesis
    apply (intro exI conjI)
     apply (rule x1)
    apply (rule x2)
    done
qed

section \<open>The closing balance\<close>

text \<open>
  Claim C5 (corrected). A row whose booking date is \<^verbatim>\<open>Account balance\<close>, whose IBAN
  field is \<^verbatim>\<open>EUR\<close> (the configured currency) and whose payment details are
  \<^verbatim>\<open>1,234.56\<close>, with commas between the thousands and a point before the decimals,
  records the decimal 1234.56 (coefficient 123456, exponent -2) as the closing balance,
  a bare decimal without a currency, and adds no transaction.
\<close>

theorem balance_row_comma_grouped:
  assumes "currency self = ''EUR''"
    and "line ''Booking date'' = Some (CStr ''Account balance'')"
    and "line ''IBAN'' = Some (CStr ''EUR'')"
    and "line ''Payment Details'' = Some (CStr ''1,234.56'')"
  shows "process_row self filename lineno line entries =
           (Inr entries, self\<lparr>finishing_balance := PyDecimal (Finite False 123456 (- 2))\<rparr>)"
  using assms process_row_balance_cell [of line self "CStr ''1,234.56''"
      "Finite False 123456 (- 2)" filename lineno entries]
  by (simp add: format_number_1234_56 del: format_number.simps)

theorem balance_row_comma_grouped_witness:
  "process_row demo_importer ''statement.csv'' 6 (dict_row DATA_HEADERS demo_balance) [] =
     (Inr [], demo_importer\<lparr>finishing_balance := PyDecimal (Finite False 123456 (- 2))\<rparr>)"
  using balance_row_comma_grouped [OF demo_currency demo_balance_cells]
  by simp

text \<open>
  With the payment details \<^verbatim>\<open>1.234,56\<close> of the claim, only the comma is removed and
  the text \<^verbatim>\<open>1.23456\<close> is converted: the statement is accepted, no transaction is
  returned, and the closing balance is the decimal 1.23456 (coefficient 123456, exponent
  -5), which is not equal to 1234.56.
\<close>

theorem balance_row_dotted_counterexample:
  "extract_file demo_importer (demo_file [DATA_HEADERS, demo_balance_dotted]) =
     (Inr [], demo_parsed\<lparr>finishing_balance := PyDecimal (Finite False 123456 (- 5))\<rparr>) \<and>
   Decimal ''1234.56'' = Inr (Finite False 123456 (- 2)) \<and>
   \<not> decimal_eq (Finite False 123456 (- 5)) (Finite False 123456 (- 2))"
proof -
  have "process_row demo_parsed ''statement.csv'' 6
          (dict_row DATA_HEADERS demo_balance_dotted) [] =
        (Inr [], demo_parsed\<lparr>finishing_balance := PyDecimal (Finite False 123456 (- 5))\<rparr>)"
    using process_row_balance_cell [OF demo_balance_dotted_cells(1) _
        demo_balance_dotted_cells(3) format_number_dotted, of demo_parsed]
    by (simp add: demo_parsed_config demo_balance_dotted_cells)
  then have "extract_file demo_importer (demo_file [DATA_HEADERS, demo_balance_dotted]) =
     (Inr [], demo_parsed\<lparr>finishing_balance := PyDecimal (Finite False 123456 (- 5))\<rparr>)"
    by (simp add: demo_file_rows demo_balance_dotted_nonempty)
  moreover have "Decimal ''1234.56'' = Inr (Finite False 123456 (- 2))"
    by (simp add: decimal_defs)
  moreover have "\<not> decimal_eq (Finite False 123456 (- 5)) (Finite False 123456 (- 2))"
    by (simp add: signed_def)
  ultimately show ?thesis by simp
qed

section \<open>The opening balance\<close>

text \<open>
  Claim C3 (the code departs from the specification). After a valid preamble the attribute
  \<^verbatim>\<open>_starting_balance\<close> holds the third line as text, stripped and otherwise as it
  stands in the file: \<^verbatim>\<open>group(0)\<close> of the match. The amount in it is never converted
  to a decimal and no commas are removed, whatever the table that follows is and whether
  or not the call fails on it.
\<close>

theorem starting_balance_is_text:
  assumes "valid_preamble self fobj"
  shows "starting_balance (snd (extract_file self fobj)) = PyStr (strip (readline fobj 2))"
proof -
  from extract_preamble_valid [OF assms] obtain d1 d2 where
    "extract_preamble self fobj =
       (Inr 4, self\<lparr>date_from := PyDate d1, date_to := PyDate d2,
                     starting_balance := PyStr (strip (readline fobj 2))\<rparr>)"
    by blast
  then have "starting_balance (snd (extract_preamble self fobj)) =
      PyStr (strip (readline fobj 2))" by simp
  with without_closing_fields(9) [OF extract_file_frame [of self fobj]]
  show ?thesis by simp
qed

theorem starting_balance_is_text_witness:
  "starting_balance
     (snd (extract_file demo_importer
        (demo_file [DATA_HEADERS, demo_payment, demo_deposit, demo_balance]))) =
   PyStr ''Old balance:;;;;1,234.56;EUR''"
proof -
  have "strip (readline (demo_file [DATA_HEADERS, demo_payment, demo_deposit, demo_balance]) 2)
      = ''Old balance:;;;;1,234.56;EUR''"
    by code_simp
  with starting_balance_is_text [OF demo_preamble,
      of "[DATA_HEADERS, demo_payment, demo_deposit, demo_balance]"]
  show ?thesis by simp
qed

section \<open>Errors in rows\<close>





section \<open>What a call leaves on the importer\<close>




section \<open>Rows after a closing balance\<close>

text \<open>
  Claim C10. Let the rows of a statement with a valid preamble and the expected table
  header be valid rows of either kind in any order, then a valid row whose booking date is
  \<^verbatim>\<open>Account balance\<close>, then valid ordinary rows. Then \<^verbatim>\<open>extract\<close> returns without
  an error. Each ordinary row, before or after a balance row, gives one transaction and the
  transactions come in the order of their rows; in particular the rows after the balance
  row give the last transactions, numbered by the line counter, which counts the balance
  rows too. The closing balance left on the importer is the one of the last balance row,
  whatever the balance rows before it held.
\<close>

theorem rows_after_balance_row:
  assumes "valid_preamble self fobj"
    and "fieldnames fobj = Some names" and "set names = set DATA_HEADERS"
    and "reader_rows fobj names = pre @ [bal] @ post"
    and "\<forall>l\<in>set pre. valid_row (currency self) l"
    and "valid_balance_row (currency self) bal"
    and "\<forall>l\<in>set post. valid_ordinary_row (currency self) l"
  shows "\<exists>entries self' v.
           extract_file self fobj = (Inr entries, self') \<and>
           entries_match self (name fobj) 5 (pre @ [bal] @ post) entries \<and>
           length entries = length (filter (\<lambda>l. \<not> is_balance_row l) pre) + length post \<and>
           (\<forall>i<length post.
              built_from self (name fobj) (7 + length pre + i) (post ! i)
                (entries ! (length (filter (\<lambda>l. \<not> is_balance_row l) pre) + i))) \<and>
           finishing_balance self' = PyDecimal v \<and>
           has bal ''Payment Details'' (\<lambda>c. format_number c = Inr v)"
proof -
  let ?rows = "pre @ [bal] @ post"
  have r: "reader_rows fobj names = ?rows @ []" using assms(4) by simp
  have v: "\<forall>l\<in>set ?rows. valid_row (currency self) l"
    using assms(5,6,7) by (auto simp: valid_row_def)
  have nb: "\<forall>l\<in>set post. \<not> is_balance_row l"
    using assms(7) by (blast dest: valid_ordinary_not_balance)
  have isb: "is_balance_row bal" using assms(6) by (simp add: valid_balance_row_def)
  from extract_file_upto [OF assms(1-3) r v] obtain s ts where
    s: "finishing_balance s = closing (finishing_balance self) ?rows" and
    m: "entries_match self (name fobj) 5 ?rows ts" and
    e: "extract_file self fobj = extract_rows s (name fobj) (5 + length ?rows) [] ts"
    by blast
  from e have 1: "extract_file self fobj = (Inr ts, s)" by simp
  from entries_match_length [OF m] isb nb
  have 3: "length ts = length (filter (\<lambda>l. \<not> is_balance_row l) pre) + length post"
    by simp
  have m': "entries_match self (name fobj) 5 ((pre @ [bal]) @ post) ts" using m by simp
  have 4: "\<forall>i<length post.
      built_from self (name fobj) (7 + length pre + i) (post ! i)
        (ts ! (length (filter (\<lambda>l. \<not> is_balance_row l) pre) + i))"
  proof (intro allI impI)
    fix i assume "i < length post"
    from entries_match_nth_after [OF m' nb this] isb
    show "built_from self (name fobj) (7 + length pre + i) (post ! i)
        (ts ! (length (filter (\<lambda>l. \<not> is_balance_row l) pre) + i))"
      by (simp add: add.commute add.left_commute)
  qed
  from closing_balance_last [OF assms(6) nb, of "finishing_balance self" pre]
  obtain c w where c: "bal ''Payment Details'' = Some c" "format_number c = Inr w"
    "closing (finishing_balance self) ?rows = PyDecimal w" by blast
  have 5: "finishing_balance s = PyDecimal w" using s c(3) by simp
  have 6: "has bal ''Payment Details'' (\<lambda>c. format_number c = Inr w)"
    using c(1,2) by (simp add: has_def)
  show ?thesis
    apply (intro exI conjI)
         apply (rule 1)
        apply (rule m)
       apply (rule 3)
      apply (rule 4)
     apply (rule 5)
    apply (rule 6)
    done
qed

theorem rows_after_balance_row_witness:
  "\<exists>self'.
     extract_file demo_importer
       (demo_file [DATA_HEADERS, demo_balance_early, demo_payment, demo_balance, demo_deposit]) =
       (Inr [demo_payment_entry\<lparr>meta_lineno := 7\<rparr>, demo_deposit_entry\<lparr>meta_lineno := 9\<rparr>],
        self') \<and>
     finishing_balance self' = PyDecimal (Finite False 123456 (- 2))"
proof -
  let ?f = "demo_file [DATA_HEADERS, demo_balance_early, demo_payment, demo_balance,
    demo_deposit]"
  let ?e = "dict_row DATA_HEADERS demo_balance_early"
  let ?p = "dict_row DATA_HEADERS demo_payment"
  let ?b = "dict_row DATA_HEADERS demo_balance"
  let ?d = "dict_row DATA_HEADERS demo_deposit"
  have rows: "reader_rows ?f DATA_HEADERS = [?e, ?p] @ [?b] @ [?d]"
    by (simp add: demo_reader_rows demo_payment_nonempty demo_deposit_nonempty
        demo_balance_nonempty demo_nonempty)
  have pre: "\<forall>l\<in>set [?e, ?p]. valid_row (currency demo_importer) l"
    using demo_balance_early_valid demo_payment_valid
    by (simp add: demo_currency valid_row_def)
  have bal: "valid_balance_row (currency demo_importer) ?b"
    using demo_balance_valid by (simp only: demo_currency)
  have post: "\<forall>l\<in>set [?d]. valid_ordinary_row (currency demo_importer) l"
    using demo_deposit_valid by (simp add: demo_currency)
  from rows_after_balance_row [OF demo_preamble demo_fieldnames refl rows pre bal post]
  obtain entries self' v where
    r1: "extract_file demo_importer ?f = (Inr entries, self')" and
    r2: "entries_match demo_importer (name ?f) 5 ([?e, ?p] @ [?b] @ [?d]) entries" and
    r4: "finishing_balance self' = PyDecimal v" and
    r5: "has ?b ''Payment Details'' (\<lambda>c. format_number c = Inr v)"
    by blast
  from r2 obtain t1 t2 where e: "entries = [t1, t2]"
    and b1: "built_from demo_importer ''statement.csv'' 7 ?p t1"
    and b2: "built_from demo_importer ''statement.csv'' 9 ?d t2"
    by (auto simp: demo_is_balance_rows demo_not_balance_rows demo_name
        split: list.splits)
  have t1: "t1 = demo_payment_entry\<lparr>meta_lineno := 7\<rparr>"
    using built_from_unique [OF b1 demo_payment_cells(5) demo_dates(1) demo_payment_cells(6)
        demo_payees(1) demo_payment_cells(3) demo_payment_cells(4)]
    by (simp add: format_number_50_00 demo_payment_entry_def FLAG_def demo_account
        demo_currency del: format_number.simps)
  have t2: "t2 = demo_deposit_entry\<lparr>meta_lineno := 9\<rparr>"
    using built_from_unique [OF b2 demo_deposit_cells(5) demo_dates(2) demo_deposit_cells(6)
        demo_payees(2) demo_deposit_cells(3) demo_deposit_cells(4)]
    by (simp add: format_number_1500_00 demo_deposit_entry_def FLAG_def demo_account
        demo_currency del: format_number.simps)
  from r5 have "format_number (CStr ''1,234.56'') = Inr v"
    by (simp only: has_def demo_balance_cells option.case)
  then have v: "v = Finite False 123456 (- 2)"
    by (simp only: format_number_1234_56 sum.inject)
  from r1 e t1 t2 have x1: "extract_file demo_importer ?f =
      (Inr [demo_payment_entry\<lparr>meta_lineno := 7\<rparr>, demo_deposit_entry\<lparr>meta_lineno := 9\<rparr>],
       self')" by simp
  from r4 v have x2: "finishing_balance self' = PyDecimal (Finite False 123456 (- 2))"
    by simp
  show ?thesis
    apply (intro exI conjI)
     apply (rule x1)
    apply (rule x2)
    done
qed

section \<open>The header of the table\<close>




section \<open>The errors of a call\<close>




section \<open>Identification\<close>

text \<open>
  Claim C8 (corrected). \<^verbatim>\<open>identify\<close> applies \<^verbatim>\<open>match\<close>, which looks for the pattern
  at the start of the text only. So the result is truthy exactly when the content of the
  file begins with \<^verbatim>\<open>Transactions\<close>, one whitespace character, any characters other
  than a newline, \<^verbatim>\<open>;;;Customer\<close>, one whitespace character, \<^verbatim>\<open>number:\<close>, one
  whitespace character, the branch, one whitespace character and the customer number, and
  the content ends there or goes on with a newline. A header line further down in the
  content is not found.
\<close>

theorem identify_at_start:
  "identify (CurrentAccount branch number acc cur enc) fobj \<longleftrightarrow>
   (\<exists>s1 m s2 s3 s4 rest.
      contents fobj =
        ''Transactions'' @ [s1] @ m @ '';;;Customer'' @ [s2] @ ''number:'' @ [s3] @
        branch @ [s4] @ number @ rest \<and>
      isspace s1 \<and> isspace s2 \<and> isspace s3 \<and> isspace s4 \<and> newline \<notin> set m \<and>
      dollar_multiline rest)"
proof -
  let ?self = "CurrentAccount branch number acc cur enc"
  have "identify ?self fobj \<longleftrightarrow>
    (\<exists>p rest. contents fobj = p @ rest \<and> p \<in> lang (expected_header_regex ?self) \<and>
       dollar_multiline rest)"
    by (simp only: identify_def re_match_iff)
  also have "\<dots> \<longleftrightarrow>
    (\<exists>p rest. contents fobj = p @ rest \<and>
       (\<exists>s1 m s2 s3 s4.
          p = ''Transactions'' @ [s1] @ m @ '';;;Customer'' @ [s2] @ ''number:'' @ [s3] @
              branch @ [s4] @ number \<and>
          isspace s1 \<and> isspace s2 \<and> isspace s3 \<and> isspace s4 \<and> newline \<notin> set m) \<and>
       dollar_multiline rest)"
    by (simp only: header_lang)
  also have "\<dots> \<longleftrightarrow>
    (\<exists>s1 m s2 s3 s4 rest.
      contents fobj =
        (''Transactions'' @ [s1] @ m @ '';;;Customer'' @ [s2] @ ''number:'' @ [s3] @
        branch @ [s4] @ number) @ rest \<and>
      isspace s1 \<and> isspace s2 \<and> isspace s3 \<and> isspace s4 \<and> newline \<notin> set m \<and>
      dollar_multiline rest)"
    by blast
  finally show ?thesis by (simp only: append_assoc)
qed

theorem identify_at_start_witness:
  "\<exists>s1 m s2 s3 s4 rest.
      contents (demo_file []) =
        ''Transactions'' @ [s1] @ m @ '';;;Customer'' @ [s2] @ ''number:'' @ [s3] @
        ''123'' @ [s4] @ ''4567890'' @ rest \<and>
      isspace s1 \<and> isspace s2 \<and> isspace s3 \<and> isspace s4 \<and> newline \<notin> set m \<and>
      dollar_multiline rest"
  using identify_at_start [of "''123''" "''4567890''" "''Assets:DB:Current''" "''EUR''"
      "''utf-8''" "demo_file []"] identify_demo
  by (simp only: demo_importer_def [symmetric] simp_thms)

text \<open>
  The claim itself fails for a file whose second line is the header line: the pattern
  matches where the second line starts, after the 17 characters of the first line, and
  \<^verbatim>\<open>identify\<close> returns \<^verbatim>\<open>None\<close>.
\<close>

theorem identify_later_line_counterexample:
  "take 17 (contents demo_shifted_file) = ''Statement export'' @ [newline] \<and>
   re_match (expected_header_regex demo_importer) dollar_multiline
     (drop 17 (contents demo_shifted_file)) \<and>
   \<not> identify demo_importer demo_shifted_file"
  using demo_shifted by (intro conjI)

end
